theory Spec2Isabelle
  imports Main "HOL-Library.AList"
begin

section \<open>Python values shared by the fetch and load systems\<close>

text \<open>
  Exceptions are values. Only the class matters to the \<^verbatim>\<open>except\<close> clauses of
  the pipeline (\<^verbatim>\<open>except ValueError\<close> in the merge engine,
  \<^verbatim>\<open>except Exception\<close> around a record), and only the message is written
  to the status ledger (\<^verbatim>\<open>str(e)\<close>).
\<close>

datatype py_exc = ValueError string | KeyError string | OtherError string

fun str_exc :: "py_exc \<Rightarrow> string" where
  "str_exc (ValueError m) = m"
| "str_exc (KeyError k) = [CHR 0x27] @ k @ [CHR 0x27]"
| "str_exc (OtherError m) = m"

text \<open>A cell of a DataFrame: a string, an integer or the missing value NaN.\<close>

datatype cell = CStr string | CInt int | CNaN

text \<open>Decimal rendering, as \<^verbatim>\<open>str(n)\<close> and the f-string \<^verbatim>\<open>{n}\<close> produce it.\<close>

definition digit_char :: "nat \<Rightarrow> char" where
  "digit_char d = ''0123456789'' ! d"

function str_nat :: "nat \<Rightarrow> string" where
  "str_nat n = (if n < 10 then [digit_char n] else str_nat (n div 10) @ [digit_char (n mod 10)])"
  by pat_completeness auto
termination
  by (relation "measure id") auto

declare str_nat.simps [simp del]

definition str_int :: "int \<Rightarrow> string" where
  "str_int i = (if i < 0 then ''-'' @ str_nat (nat (- i)) else str_nat (nat i))"

fun py_str :: "cell \<Rightarrow> string" where
  "py_str (CStr s) = s"
| "py_str (CInt i) = str_int i"
| "py_str CNaN = ''nan''"

section \<open>Status ledger (status\_tracker.py)\<close>

text \<open>
  One row of \<^verbatim>\<open>tracking_df\<close>; the columns are Production Record ID, Lot Number,
  Status and Reason. The ledger is the list of rows in index order;
  \<^verbatim>\<open>lot_number\<close> is \<^verbatim>\<open>None\<close> for a failure logged before the lot is known.
\<close>

record status_entry =
  se_record_id :: int
  se_lot_number :: "cell option"
  se_status :: string
  se_reason :: string

type_synonym tracking = "status_entry list"

text \<open>
  \<^verbatim>\<open>is_already_processed\<close>: select the rows of the identifier; when the selection
  is not empty, answer for its first row (\<^verbatim>\<open>iloc[0]\<close>).
\<close>

definition is_already_processed :: "tracking \<Rightarrow> int \<Rightarrow> bool" where
  "is_already_processed tracking_df production_record_id =
     (case filter (\<lambda>e. se_record_id e = production_record_id) tracking_df of
        [] \<Rightarrow> False
      | e # _ \<Rightarrow> se_status e = ''Success'')"

text \<open>\<^verbatim>\<open>log_status\<close>: the row is written at label \<^verbatim>\<open>len(tracking_df)\<close>, that is, appended.\<close>

definition log_status_df :: "tracking \<Rightarrow> int \<Rightarrow> cell option \<Rightarrow> string \<Rightarrow> string \<Rightarrow> tracking" where
  "log_status_df tracking_df production_record_id lot_number status reason =
     tracking_df @ [\<lparr>se_record_id = production_record_id, se_lot_number = lot_number,
                     se_status = status, se_reason = reason\<rparr>]"

section \<open>Paginated fetcher (api\_client.py)\<close>

text \<open>
  The decoded body of one page. \<^verbatim>\<open>Content c l\<close> is an object with a
  \<^verbatim>\<open>content\<close> key, \<^verbatim>\<open>PageResult c l\<close> one with a \<^verbatim>\<open>pageResult\<close> key (whose own
  \<^verbatim>\<open>content\<close> may be absent) and no \<^verbatim>\<open>content\<close> key, \<^verbatim>\<open>UnknownShape\<close> any
  other body. The second argument is the \<^verbatim>\<open>last\<close> flag, \<^verbatim>\<open>None\<close> when absent.
\<close>

datatype 'a envelope =
    Content "'a list" "bool option"
  | PageResult "'a list option" "bool option"
  | UnknownShape

text \<open>\<^verbatim>\<open>data.get('last', True)\<close>\<close>

definition get_last :: "bool option \<Rightarrow> bool" where
  "get_last l = (case l of None \<Rightarrow> True | Some b \<Rightarrow> b)"

text \<open>The URL of one page: the page index, the fixed page size, then the parameters in order.\<close>

definition page_url :: "string \<Rightarrow> (string \<times> string) list \<Rightarrow> nat \<Rightarrow> string" where
  "page_url base_url params page =
     foldl (\<lambda>url (key, val). url @ ''&'' @ key @ ''='' @ val)
       (base_url @ ''?currentPage='' @ str_nat page @ ''&itemsPerPage=1000'') params"

text \<open>
  \<^verbatim>\<open>fetch_paginated_data\<close>. The argument \<open>get\<close> is \<^verbatim>\<open>perform_get_request\<close> followed
  by \<^verbatim>\<open>json.loads\<close>: \<^verbatim>\<open>None\<close> when every retry failed. The loop need not end (a source
  that never sets \<^verbatim>\<open>last\<close>), so the function is partial: \<^verbatim>\<open>None\<close> is a loop that
  never returns. The result carries the URLs requested, in request order.
\<close>

partial_function (option) fetch_pages ::
  "(string \<Rightarrow> 'a envelope option) \<Rightarrow> string \<Rightarrow> (string \<times> string) list \<Rightarrow>
   nat \<Rightarrow> 'a list \<Rightarrow> string list \<Rightarrow> ('a list \<times> string list) option" where
  "fetch_pages get base_url params page all_data requested =
     (let url = page_url base_url params page;
          requested' = requested @ [url]
      in case get url of
           None \<Rightarrow> Some (all_data, requested')
         | Some (Content c l) \<Rightarrow>
             if get_last l then Some (all_data @ c, requested')
             else fetch_pages get base_url params (page + 1) (all_data @ c) requested'
         | Some (PageResult c l) \<Rightarrow>
             if get_last l
             then Some (all_data @ (case c of None \<Rightarrow> [] | Some c' \<Rightarrow> c'), requested')
             else fetch_pages get base_url params (page + 1)
                    (all_data @ (case c of None \<Rightarrow> [] | Some c' \<Rightarrow> c')) requested'
         | Some UnknownShape \<Rightarrow> Some (all_data, requested'))"

definition fetch_paginated_data ::
  "(string \<Rightarrow> 'a envelope option) \<Rightarrow> string \<Rightarrow> (string \<times> string) list \<Rightarrow>
   ('a list \<times> string list) option" where
  "fetch_paginated_data get base_url params = fetch_pages get base_url params 0 [] []"

text \<open>
  What a recognised page carries: its content (an absent inner \<^verbatim>\<open>content\<close> counts as
  the empty list) and its \<^verbatim>\<open>last\<close> flag. Used to state properties of both envelope
  shapes at once.
\<close>

fun carries :: "'a envelope \<Rightarrow> 'a list \<Rightarrow> bool option \<Rightarrow> bool" where
  "carries (Content c l) c' l' = (c = c' \<and> l = l')"
| "carries (PageResult c l) c' l' = ((case c of None \<Rightarrow> [] | Some x \<Rightarrow> x) = c' \<and> l = l')"
| "carries UnknownShape c' l' = False"

section \<open>Timestamp reformatting (utils.py)\<close>

text \<open>
  A \<^verbatim>\<open>datetime\<close> value. \<^verbatim>\<open>dt_tzinfo\<close> is the UTC offset in minutes of an aware
  value and \<^verbatim>\<open>None\<close> for a naive one.
\<close>

record datetime =
  dt_year :: int
  dt_month :: int
  dt_day :: int
  dt_hour :: int
  dt_minute :: int
  dt_second :: int
  dt_tzinfo :: "int option"

definition is_leap :: "int \<Rightarrow> bool" where
  "is_leap y = (y mod 4 = 0 \<and> (y mod 400 = 0 \<or> y mod 100 \<noteq> 0))"

definition days_in_month :: "int \<Rightarrow> int \<Rightarrow> int" where
  "days_in_month y m =
     (if m = 2 then (if is_leap y then 29 else 28)
      else if m = 4 \<or> m = 6 \<or> m = 9 \<or> m = 11 then 30 else 31)"

text \<open>
  The calendar day after and before a date. The library's dates run from year 1 to year
  9999; leaving that range raises \<^verbatim>\<open>OverflowError\<close>.
\<close>

definition next_day :: "datetime \<Rightarrow> py_exc + datetime" where
  "next_day d =
     (if dt_day d < days_in_month (dt_year d) (dt_month d) then Inr (d\<lparr>dt_day := dt_day d + 1\<rparr>)
      else if dt_month d < 12 then Inr (d\<lparr>dt_month := dt_month d + 1, dt_day := 1\<rparr>)
      else if dt_year d < 9999 then Inr (d\<lparr>dt_year := dt_year d + 1, dt_month := 1, dt_day := 1\<rparr>)
      else Inl (OtherError ''date value out of range''))"

definition prev_day :: "datetime \<Rightarrow> py_exc + datetime" where
  "prev_day d =
     (if 1 < dt_day d then Inr (d\<lparr>dt_day := dt_day d - 1\<rparr>)
      else if 1 < dt_month d
        then Inr (d\<lparr>dt_month := dt_month d - 1,
                     dt_day := days_in_month (dt_year d) (dt_month d - 1)\<rparr>)
      else if 1 < dt_year d then Inr (d\<lparr>dt_year := dt_year d - 1, dt_month := 12, dt_day := 31\<rparr>)
      else Inl (OtherError ''date value out of range''))"

text \<open>
  \<^verbatim>\<open>astimezone\<close> of an aware value to a zone whose offset at that instant is
  \<open>new_offset\<close> minutes: the wall clock moves by the difference of the offsets, which is
  less than two days, and the date follows.
\<close>

definition set_clock :: "datetime \<Rightarrow> int \<Rightarrow> int \<Rightarrow> datetime" where
  "set_clock d t new_offset =
     d\<lparr>dt_hour := t div 60, dt_minute := t mod 60, dt_tzinfo := Some new_offset\<rparr>"

definition astimezone :: "datetime \<Rightarrow> int \<Rightarrow> py_exc + datetime" where
  "astimezone d new_offset =
     (let old_offset = (case dt_tzinfo d of None \<Rightarrow> 0 | Some k \<Rightarrow> k);
          t = dt_hour d * 60 + dt_minute d + (new_offset - old_offset)
      in if t < - 1440 then
           (case prev_day d of Inl e \<Rightarrow> Inl e
            | Inr d1 \<Rightarrow> (case prev_day d1 of Inl e \<Rightarrow> Inl e
                         | Inr d2 \<Rightarrow> Inr (set_clock d2 (t + 2880) new_offset)))
         else if t < 0 then
           (case prev_day d of Inl e \<Rightarrow> Inl e | Inr d1 \<Rightarrow> Inr (set_clock d1 (t + 1440) new_offset))
         else if t < 1440 then Inr (set_clock d t new_offset)
         else if t < 2880 then
           (case next_day d of Inl e \<Rightarrow> Inl e | Inr d1 \<Rightarrow> Inr (set_clock d1 (t - 1440) new_offset))
         else
           (case next_day d of Inl e \<Rightarrow> Inl e
            | Inr d1 \<Rightarrow> (case next_day d1 of Inl e \<Rightarrow> Inl e
                         | Inr d2 \<Rightarrow> Inr (set_clock d2 (t - 2880) new_offset))))"

text \<open>\<^verbatim>\<open>strftime('%M')\<close>: the minute on two digits.\<close>

definition strftime_M :: "datetime \<Rightarrow> string" where
  "strftime_M d =
     (if dt_minute d < 10 then ''0'' @ str_int (dt_minute d) else str_int (dt_minute d))"

text \<open>
  \<^verbatim>\<open>reformat_datetime\<close>. The two library parts are arguments: \<open>parse\<close> is
  \<^verbatim>\<open>dateutil.parser.parse\<close> (an exception on a string it cannot read), and
  \<open>eastern\<close> gives the UTC offset in minutes of the zone America/New\_York at a UTC
  instant (the time zone database). The result is the returned string and the lines
  written by \<^verbatim>\<open>logging.error\<close>.
\<close>

definition reformat_error :: "string \<Rightarrow> py_exc \<Rightarrow> string \<times> string list" where
  "reformat_error date_str e =
     (date_str, [''Error reformatting datetime '' @ date_str @ '': '' @ str_exc e])"

definition reformat_datetime ::
  "(string \<Rightarrow> py_exc + datetime) \<Rightarrow> (datetime \<Rightarrow> int) \<Rightarrow> string \<Rightarrow> string \<times> string list" where
  "reformat_datetime parse eastern date_str =
     (case parse date_str of
        Inl e \<Rightarrow> reformat_error date_str e
      | Inr dt \<Rightarrow>
          (case (if dt_tzinfo dt = None then Inr (dt\<lparr>dt_tzinfo := Some 0\<rparr>) else astimezone dt 0) of
             Inl e \<Rightarrow> reformat_error date_str e
           | Inr dt_utc \<Rightarrow>
               (case astimezone dt_utc (eastern dt_utc) of
                  Inl e \<Rightarrow> reformat_error date_str e
                | Inr dt_et \<Rightarrow>
                    (str_int (dt_month dt_et) @ ''/'' @ str_int (dt_day dt_et) @ ''/'' @
                     str_int (dt_year dt_et) @ '' '' @ str_int (dt_hour dt_et) @ '':'' @
                     strftime_M dt_et, []))))"

text \<open>
  A reader for timestamps of the one shape \<^verbatim>\<open>YYYY-MM-DDTHH:MM:SSZ\<close>, on which it
  agrees with the library's parser; it stands for \<open>parse\<close> where a concrete timestamp is
  evaluated and rejects every other string.
\<close>

definition digit_val :: "char \<Rightarrow> nat option" where
  "digit_val c = (if c \<in> set ''0123456789'' then Some (of_char c - 48) else None)"

fun digits_val :: "nat \<Rightarrow> string \<Rightarrow> nat option" where
  "digits_val acc [] = Some acc"
| "digits_val acc (c # cs) =
     (case digit_val c of None \<Rightarrow> None | Some d \<Rightarrow> digits_val (acc * 10 + d) cs)"

definition field_val :: "string \<Rightarrow> nat \<Rightarrow> nat \<Rightarrow> int option" where
  "field_val s start len = map_option int (digits_val 0 (take len (drop start s)))"

definition parse_iso_z :: "string \<Rightarrow> py_exc + datetime" where
  "parse_iso_z s =
     (if length s = 20 \<and> s ! 4 = CHR ''-'' \<and> s ! 7 = CHR ''-'' \<and> s ! 10 = CHR ''T'' \<and>
         s ! 13 = CHR '':'' \<and> s ! 16 = CHR '':'' \<and> s ! 19 = CHR ''Z''
      then (case (field_val s 0 4, field_val s 5 2, field_val s 8 2,
                  field_val s 11 2, field_val s 14 2, field_val s 17 2) of
              (Some y, Some m, Some d, Some h, Some mi, Some sec) \<Rightarrow>
                if 1 \<le> y \<and> 1 \<le> m \<and> m \<le> 12 \<and> 1 \<le> d \<and> d \<le> days_in_month y m \<and>
                   h < 24 \<and> mi < 60 \<and> sec < 60
                then Inr \<lparr>dt_year = y, dt_month = m, dt_day = d, dt_hour = h, dt_minute = mi,
                          dt_second = sec, dt_tzinfo = Some 0\<rparr>
                else Inl (ValueError (''Unknown string format: '' @ s))
            | _ \<Rightarrow> Inl (ValueError (''Unknown string format: '' @ s)))
      else Inl (ValueError (''Unknown string format: '' @ s)))"

section \<open>DataFrames\<close>

text \<open>
  A DataFrame is its column labels and its rows; a row gives every column a cell.
  \<^verbatim>\<open>pd.DataFrame()\<close> has no column and no row.
\<close>

type_synonym row = "(string \<times> cell) list"

record frame =
  cols :: "string list"
  rws :: "row list"

definition empty_frame :: frame where
  "empty_frame = \<lparr>cols = [], rws = []\<rparr>"

text \<open>\<^verbatim>\<open>df.shape[0]\<close> and \<^verbatim>\<open>df.empty\<close> (some axis has length 0).\<close>

definition shape0 :: "frame \<Rightarrow> nat" where
  "shape0 df = length (rws df)"

definition df_empty :: "frame \<Rightarrow> bool" where
  "df_empty df = (cols df = [] \<or> rws df = [])"

definition cell_at :: "row \<Rightarrow> string \<Rightarrow> cell" where
  "cell_at r c = (case map_of r c of None \<Rightarrow> CNaN | Some v \<Rightarrow> v)"

text \<open>The values of a column, in row order.\<close>

definition column :: "frame \<Rightarrow> string \<Rightarrow> cell list" where
  "column df c = map (\<lambda>r. cell_at r c) (rws df)"

text \<open>\<^verbatim>\<open>df[c] = v\<close> and \<^verbatim>\<open>df.loc[:, c] = v\<close> for a scalar: every row gets the value; a new
  column goes last.\<close>

definition set_col :: "frame \<Rightarrow> string \<Rightarrow> cell \<Rightarrow> frame" where
  "set_col df c v =
     \<lparr>cols = (if c \<in> set (cols df) then cols df else cols df @ [c]),
      rws = map (AList.update c v) (rws df)\<rparr>"

text \<open>\<^verbatim>\<open>df[[c1, ..., cn]]\<close>: a label that is not a column raises \<^verbatim>\<open>KeyError\<close>.\<close>

definition select_cols :: "frame \<Rightarrow> string list \<Rightarrow> py_exc + frame" where
  "select_cols df cs =
     (case filter (\<lambda>c. c \<notin> set (cols df)) cs of
        [] \<Rightarrow> Inr \<lparr>cols = cs, rws = map (\<lambda>r. map (\<lambda>c. (c, cell_at r c)) cs) (rws df)\<rparr>
      | c # _ \<Rightarrow> Inl (KeyError c))"

text \<open>\<^verbatim>\<open>df.columns = [...]\<close> on a frame whose rows follow its column order.\<close>

definition rename_cols :: "frame \<Rightarrow> string list \<Rightarrow> frame" where
  "rename_cols df names = \<lparr>cols = names, rws = map (\<lambda>r. zip names (map snd r)) (rws df)\<rparr>"

text \<open>Applying a function to the cells of one column.\<close>

definition map_col :: "frame \<Rightarrow> string \<Rightarrow> (cell \<Rightarrow> cell) \<Rightarrow> frame" where
  "map_col df c f = df\<lparr>rws := map (\<lambda>r. AList.update c (f (cell_at r c)) r) (rws df)\<rparr>"

text \<open>Sequencing of steps that may raise.\<close>

definition bind_exc :: "py_exc + 'a \<Rightarrow> ('a \<Rightarrow> py_exc + 'b) \<Rightarrow> py_exc + 'b" where
  "bind_exc m f = (case m of Inl e \<Rightarrow> Inl e | Inr x \<Rightarrow> f x)"

section \<open>Record reconciler (data\_processor.py)\<close>

text \<open>
  One item of the capture endpoint's content. The text attributes are strings, the
  identifiers are cells (a number, a string or null), \<^verbatim>\<open>iterationNumber\<close> is a number
  or null.
\<close>

record capture_item =
  ci_current :: bool
  ci_iterationNumber :: "int option"
  ci_orderLabel :: string
  ci_productionRecordId :: cell
  ci_masterTemplateId :: cell
  ci_unitProcedureId :: cell
  ci_operationId :: cell
  ci_phaseId :: cell
  ci_title :: string
  ci_value :: string
  ci_userName :: string
  ci_dateTime :: string
  ci_actionTaken :: string
  ci_dataCaptureName :: string

text \<open>\<^verbatim>\<open>REQUIRED_COLUMNS['data_capture']\<close> of config.py.\<close>

definition required_data_capture :: "string list" where
  "required_data_capture =
     [''orderLabel'', ''productionRecordId'', ''masterTemplateId'', ''unitProcedureId'',
      ''operationId'', ''phaseId'', ''title'', ''value'', ''userName'', ''dateTime'',
      ''actionTaken'', ''dataCaptureName'']"

text \<open>The order label, suffixed with the iteration number unless the label is
  \<^verbatim>\<open>'0'\<close> or the number is absent (the sentinel -99999).\<close>

definition order_label :: "capture_item \<Rightarrow> string" where
  "order_label i =
     (let iterationNumber = (case ci_iterationNumber i of None \<Rightarrow> - 99999 | Some n \<Rightarrow> n)
      in if ci_orderLabel i \<noteq> ''0'' \<and> iterationNumber \<noteq> - 99999
         then ci_orderLabel i @ '' - '' @ str_int iterationNumber
         else ci_orderLabel i)"

definition capture_row :: "capture_item \<Rightarrow> row" where
  "capture_row i =
     [(''orderLabel'', CStr (order_label i)),
      (''productionRecordId'', ci_productionRecordId i),
      (''masterTemplateId'', ci_masterTemplateId i),
      (''unitProcedureId'', ci_unitProcedureId i),
      (''operationId'', ci_operationId i),
      (''phaseId'', ci_phaseId i),
      (''title'', CStr (ci_title i)),
      (''value'', CStr (ci_value i)),
      (''userName'', CStr (ci_userName i)),
      (''dateTime'', CStr (ci_dateTime i)),
      (''actionTaken'', CStr (ci_actionTaken i)),
      (''dataCaptureName'', CStr (ci_dataCaptureName i))]"

text \<open>
  \<^verbatim>\<open>fetch_production_record_data\<close>. The argument \<open>captures\<close> is the paginated fetch
  of the record's captures: the list \<^verbatim>\<open>all_data\<close>, or an exception. The result is the
  lot number and the frame of the current captures. The lot number is the title of the
  first current capture named \<^verbatim>\<open>BATCH_RECORD_CREATION\<close>, and the integer 0 when
  there is none.
\<close>

definition fetch_production_record_data ::
  "(int \<Rightarrow> py_exc + capture_item list) \<Rightarrow> int \<Rightarrow> py_exc + (cell \<times> frame)" where
  "fetch_production_record_data captures production_record_id =
     (case captures production_record_id of
        Inl e \<Rightarrow> Inl e
      | Inr all_data \<Rightarrow>
          if all_data = [] then Inr (CInt 0, empty_frame)
          else
            (let record_data = filter ci_current all_data;
                 df_required = \<lparr>cols = required_data_capture, rws = map capture_row record_data\<rparr>;
                 lot_numbers =
                   map ci_title
                     (filter (\<lambda>i. ci_dataCaptureName i = ''BATCH_RECORD_CREATION'') record_data)
             in case lot_numbers of
                  [] \<Rightarrow> Inr (CInt 0, df_required)
                | l # _ \<Rightarrow> Inr (CStr l, df_required)))"

text \<open>
  The remote source behind the \<^verbatim>\<open>DataProcessor\<close>: the capture fetch of a record, the
  primary lot lookup (\<^verbatim>\<open>fetch_batch_records_by_lot\<close>), the secondary lot lookup
  (\<^verbatim>\<open>fetch_data_capture_by_lot\<close>) and the structure tables of a record
  (\<^verbatim>\<open>fetch_production_structure_metadata\<close>: unit, operation, phase). Each call
  returns its value or raises.
\<close>

record data_source =
  data_captures :: "int \<Rightarrow> py_exc + capture_item list"
  batch_records_by_lot :: "cell \<Rightarrow> py_exc + frame"
  data_capture_by_lot :: "cell \<Rightarrow> py_exc + frame"
  production_structure_metadata :: "int \<Rightarrow> py_exc + (frame \<times> frame \<times> frame)"

text \<open>
  The library functions the merge engine calls: \<^verbatim>\<open>DataFrame.merge(right, how='left',
  on=keys)\<close>, the timestamp parser and the zone database.
\<close>

record lib =
  pd_merge :: "frame \<Rightarrow> frame \<Rightarrow> string list \<Rightarrow> py_exc + frame"
  dt_parse :: "string \<Rightarrow> py_exc + datetime"
  eastern_offset :: "datetime \<Rightarrow> int"

section \<open>Structure metadata resolver (data\_processor.py)\<close>

text \<open>One node of a record's structure document, with the columns of
  \<^verbatim>\<open>REQUIRED_COLUMNS['structure']\<close>.\<close>

record structure_item =
  si_title :: string
  si_level :: string
  si_masterTemplateId :: cell
  si_unitProcedureId :: cell
  si_operationId :: cell
  si_phaseId :: cell

text \<open>\<^verbatim>\<open>_process_unit_procedures\<close>, \<^verbatim>\<open>_process_operations\<close> and
  \<^verbatim>\<open>_process_phases\<close>: a level without rows gives \<^verbatim>\<open>pd.DataFrame()\<close>, a frame
  without columns.\<close>

definition process_unit_procedures :: "structure_item list \<Rightarrow> frame" where
  "process_unit_procedures df =
     (if df = [] then empty_frame
      else \<lparr>cols = [''masterTemplateId'', ''unitProcedureId'', ''Unit''],
            rws = map (\<lambda>x. [(''masterTemplateId'', si_masterTemplateId x),
                              (''unitProcedureId'', si_unitProcedureId x),
                              (''Unit'', CStr (si_title x))]) df\<rparr>)"

definition process_operations :: "structure_item list \<Rightarrow> frame" where
  "process_operations df =
     (if df = [] then empty_frame
      else \<lparr>cols = [''masterTemplateId'', ''unitProcedureId'', ''operationId'', ''Operation''],
            rws = map (\<lambda>x. [(''masterTemplateId'', si_masterTemplateId x),
                              (''unitProcedureId'', si_unitProcedureId x),
                              (''operationId'', si_operationId x),
                              (''Operation'', CStr (si_title x))]) df\<rparr>)"

definition process_phases :: "structure_item list \<Rightarrow> frame" where
  "process_phases df =
     (if df = [] then empty_frame
      else \<lparr>cols = [''masterTemplateId'', ''unitProcedureId'', ''operationId'', ''phaseId'',
                    ''Phase''],
            rws = map (\<lambda>x. [(''masterTemplateId'', si_masterTemplateId x),
                              (''unitProcedureId'', si_unitProcedureId x),
                              (''operationId'', si_operationId x),
                              (''phaseId'', si_phaseId x),
                              (''Phase'', CStr (si_title x))]) df\<rparr>)"

text \<open>
  \<^verbatim>\<open>fetch_production_structure_metadata\<close>. The argument \<open>structures\<close> is the request
  of the record's structure document: \<^verbatim>\<open>None\<close> when every retry failed, the decoded
  nodes otherwise, or an exception. A failed request gives three frames without columns.
  A document without nodes has no \<^verbatim>\<open>level\<close> column, and selecting it raises.
\<close>

definition fetch_production_structure_metadata ::
  "(int \<Rightarrow> py_exc + structure_item list option) \<Rightarrow> int \<Rightarrow> py_exc + (frame \<times> frame \<times> frame)" where
  "fetch_production_structure_metadata structures production_record_id =
     (case structures production_record_id of
        Inl e \<Rightarrow> Inl e
      | Inr None \<Rightarrow> Inr (empty_frame, empty_frame, empty_frame)
      | Inr (Some data) \<Rightarrow>
          if data = [] then Inl (KeyError ''level'')
          else
            (let df_required =
                   filter (\<lambda>x. si_level x \<in> set [''UNIT_PROCEDURE'', ''OPERATION'', ''PHASE'']) data
             in Inr (process_unit_procedures
                       (filter (\<lambda>x. si_level x = ''UNIT_PROCEDURE'') df_required),
                     process_operations (filter (\<lambda>x. si_level x = ''OPERATION'') df_required),
                     process_phases (filter (\<lambda>x. si_level x = ''PHASE'') df_required))))"

section \<open>Merge engine (\_merge\_data of bulk\_fetch.py and incremental\_fetch.py)\<close>

text \<open>\<^verbatim>\<open>df[c].unique()[0]\<close>: the first value of a column.\<close>

definition first_unique :: "frame \<Rightarrow> string \<Rightarrow> py_exc + cell" where
  "first_unique df c =
     (if c \<notin> set (cols df) then Inl (KeyError c)
      else case rws df of
             [] \<Rightarrow> Inl (OtherError ''index 0 is out of bounds for axis 0 with size 0'')
           | r # _ \<Rightarrow> Inr (cell_at r c))"

text \<open>The four scalar columns taken from the lot summary.\<close>

definition add_metadata :: "frame \<Rightarrow> frame \<Rightarrow> py_exc + frame" where
  "add_metadata record_df capture_df =
     bind_exc (first_unique capture_df ''productName'') (\<lambda>product_name.
     bind_exc (first_unique capture_df ''lotNumber'') (\<lambda>lot_number.
     bind_exc (first_unique capture_df ''productId'') (\<lambda>product_id.
     bind_exc (first_unique capture_df ''status'') (\<lambda>status.
       Inr (set_col (set_col (set_col (set_col record_df
              ''Master Template Name'' product_name)
              ''Lot Number'' lot_number)
              ''Product ID'' product_id)
              ''Production Record Status'' status)))))"

definition merge_keys :: "string list" where
  "merge_keys = [''masterTemplateId'', ''unitProcedureId'']"

text \<open>
  The joins of bulk\_fetch.py: three nested \<^verbatim>\<open>try\<close> blocks, each catching
  \<^verbatim>\<open>ValueError\<close> only. A failed level blanks its own column and the deeper ones on
  the frame joined so far; any other exception leaves the function.
\<close>

definition merge_structure_bulk ::
  "lib \<Rightarrow> frame \<Rightarrow> frame \<Rightarrow> frame \<Rightarrow> frame \<Rightarrow> py_exc + frame" where
  "merge_structure_bulk l merged_df unit_df operation_df phase_df =
     (case pd_merge l merged_df unit_df merge_keys of
        Inl (ValueError m) \<Rightarrow>
          Inr (set_col (set_col (set_col merged_df ''Unit'' (CStr ''''))
                 ''Operation'' (CStr '''')) ''Phase'' (CStr ''''))
      | Inl e \<Rightarrow> Inl e
      | Inr merged1 \<Rightarrow>
          (case pd_merge l merged1 operation_df (merge_keys @ [''operationId'']) of
             Inl (ValueError m) \<Rightarrow>
               Inr (set_col (set_col merged1 ''Operation'' (CStr '''')) ''Phase'' (CStr ''''))
           | Inl e \<Rightarrow> Inl e
           | Inr merged2 \<Rightarrow>
               (case pd_merge l merged2 phase_df (merge_keys @ [''operationId'', ''phaseId'']) of
                  Inl (ValueError m) \<Rightarrow> Inr (set_col merged2 ''Phase'' (CStr ''''))
                | Inl e \<Rightarrow> Inl e
                | Inr merged3 \<Rightarrow> Inr merged3)))"

text \<open>
  The joins of incremental\_fetch.py: one \<^verbatim>\<open>try\<close> block around the three joins; its
  handler blanks all three columns on the frame joined so far.
\<close>

definition blank_structure :: "frame \<Rightarrow> frame" where
  "blank_structure df =
     set_col (set_col (set_col df ''Unit'' (CStr '''')) ''Operation'' (CStr '''')) ''Phase'' (CStr '''')"

definition merge_structure_incr ::
  "lib \<Rightarrow> frame \<Rightarrow> frame \<Rightarrow> frame \<Rightarrow> frame \<Rightarrow> py_exc + frame" where
  "merge_structure_incr l merged_df unit_df op_df phase_df =
     (case pd_merge l merged_df unit_df [''masterTemplateId'', ''unitProcedureId''] of
        Inl (ValueError m) \<Rightarrow> Inr (blank_structure merged_df)
      | Inl e \<Rightarrow> Inl e
      | Inr merged1 \<Rightarrow>
          (case pd_merge l merged1 op_df
                  [''masterTemplateId'', ''unitProcedureId'', ''operationId''] of
             Inl (ValueError m) \<Rightarrow> Inr (blank_structure merged1)
           | Inl e \<Rightarrow> Inl e
           | Inr merged2 \<Rightarrow>
               (case pd_merge l merged2 phase_df
                       [''masterTemplateId'', ''unitProcedureId'', ''operationId'', ''phaseId''] of
                  Inl (ValueError m) \<Rightarrow> Inr (blank_structure merged2)
                | Inl e \<Rightarrow> Inl e
                | Inr merged3 \<Rightarrow> Inr merged3)))"

definition final_columns :: "string list" where
  "final_columns =
     [''Master Template Name'', ''Lot Number'', ''Product ID'', ''Unit'', ''Operation'', ''Phase'',
      ''dateTime'', ''Production Record Status'', ''orderLabel'', ''title'', ''value'',
      ''userName'', ''actionTaken'', ''dataCaptureName'']"

definition output_columns :: "string list" where
  "output_columns =
     [''Master Template Name'', ''Lot Number'', ''Product ID'', ''Unit'', ''Operation'', ''Phase'',
      ''Data Capture Time'', ''Production Record Status'', ''Structure Label'', ''Description'',
      ''Input Data Value'', ''Performed By'', ''Action Performed'', ''Captured Data Type'']"

text \<open>\<^verbatim>\<open>str.strip()\<close> on the ASCII white space.\<close>

definition is_space :: "char \<Rightarrow> bool" where
  "is_space c = (of_char c \<in> {9, 10, 11, 12, 13, 28, 29, 30, 31, 32 :: nat})"

definition strip :: "string \<Rightarrow> string" where
  "strip s = rev (dropWhile is_space (rev (dropWhile is_space s)))"

fun is_str :: "cell \<Rightarrow> bool" where
  "is_str (CStr s) = True"
| "is_str c = False"

text \<open>A column holding a string has dtype object; \<^verbatim>\<open>.str.strip()\<close> on it strips the
  strings and gives NaN for the other cells. Columns of another dtype are left alone.\<close>

fun str_strip :: "cell \<Rightarrow> cell" where
  "str_strip (CStr s) = CStr (strip s)"
| "str_strip c = CNaN"

definition strip_object_cols :: "frame \<Rightarrow> frame" where
  "strip_object_cols df =
     foldl (\<lambda>d c. if list_ex is_str (column d c) then map_col d c str_strip else d) df (cols df)"

text \<open>\<^verbatim>\<open>reformat_datetime\<close> applied to a cell; the parser raises on a cell that is not a
  string, and the cell is returned as it is.\<close>

fun reformat_cell :: "lib \<Rightarrow> cell \<Rightarrow> cell" where
  "reformat_cell l (CStr s) = CStr (fst (reformat_datetime (dt_parse l) (eastern_offset l) s))"
| "reformat_cell l c = c"

definition starts_with :: "string \<Rightarrow> string \<Rightarrow> bool" where
  "starts_with s p = (take (length p) s = p)"

text \<open>Dropping the rows of system actors; the negated mask raises when the column holds
  a cell that is not a string.\<close>

definition drop_vod :: "frame \<Rightarrow> py_exc + frame" where
  "drop_vod df =
     (if list_all is_str (column df ''Performed By'')
      then Inr (df\<lparr>rws := filter (\<lambda>r. \<not> starts_with (py_str (cell_at r ''Performed By'')) ''VOD_'')
                              (rws df)\<rparr>)
      else Inl (OtherError ''bad operand type for unary ~''))"

definition finalize :: "lib \<Rightarrow> frame \<Rightarrow> py_exc + frame" where
  "finalize l merged_df =
     bind_exc (select_cols merged_df final_columns) (\<lambda>selected.
       drop_vod (map_col (strip_object_cols (rename_cols selected output_columns))
                   ''Data Capture Time'' (reformat_cell l)))"

definition merge_data_bulk ::
  "lib \<Rightarrow> frame \<Rightarrow> frame \<Rightarrow> frame \<Rightarrow> frame \<Rightarrow> frame \<Rightarrow> py_exc + frame" where
  "merge_data_bulk l record_df data_capture_df unit_df operation_df phase_df =
     bind_exc (add_metadata record_df data_capture_df) (\<lambda>merged_df.
     bind_exc (merge_structure_bulk l merged_df unit_df operation_df phase_df) (finalize l))"

definition merge_data_incr ::
  "lib \<Rightarrow> frame \<Rightarrow> frame \<Rightarrow> frame \<Rightarrow> frame \<Rightarrow> frame \<Rightarrow> py_exc + frame" where
  "merge_data_incr l record_df capture_df unit_df op_df phase_df =
     bind_exc (add_metadata record_df capture_df) (\<lambda>merged_df.
     bind_exc (merge_structure_incr l merged_df unit_df op_df phase_df) (finalize l))"

text \<open>
  A left join for evaluating the merge engine on concrete frames. It follows the library
  on the three outcomes the engine distinguishes: a key that is not a column of both
  frames raises \<^verbatim>\<open>KeyError\<close>; a key whose column holds strings on one side and
  integers on the other raises \<^verbatim>\<open>ValueError\<close>; otherwise every left row is kept, once
  per matching right row with the right frame's other columns added, and once with NaN
  in those columns when nothing matches.
\<close>

definition has_str :: "frame \<Rightarrow> string \<Rightarrow> bool" where
  "has_str df c = list_ex is_str (column df c)"

fun is_int :: "cell \<Rightarrow> bool" where
  "is_int (CInt i) = True"
| "is_int c = False"

definition has_int :: "frame \<Rightarrow> string \<Rightarrow> bool" where
  "has_int df c = list_ex is_int (column df c)"

definition dtype_clash :: "frame \<Rightarrow> frame \<Rightarrow> string \<Rightarrow> bool" where
  "dtype_clash left right k =
     ((has_str left k \<and> \<not> has_str right k \<and> has_int right k) \<or>
      (has_str right k \<and> \<not> has_str left k \<and> has_int left k))"

definition join_row :: "frame \<Rightarrow> string list \<Rightarrow> string list \<Rightarrow> row \<Rightarrow> row list" where
  "join_row right keys extra r =
     (case filter (\<lambda>q. list_all (\<lambda>k. cell_at q k = cell_at r k \<and> cell_at r k \<noteq> CNaN) keys)
             (rws right) of
        [] \<Rightarrow> [r @ map (\<lambda>c. (c, CNaN)) extra]
      | ms \<Rightarrow> map (\<lambda>q. r @ map (\<lambda>c. (c, cell_at q c)) extra) ms)"

definition left_join :: "frame \<Rightarrow> frame \<Rightarrow> string list \<Rightarrow> py_exc + frame" where
  "left_join left right keys =
     (case filter (\<lambda>k. \<not> (k \<in> set (cols left) \<and> k \<in> set (cols right))) keys of
        k # _ \<Rightarrow> Inl (KeyError k)
      | [] \<Rightarrow>
          if list_ex (dtype_clash left right) keys
          then Inl (ValueError ''You are trying to merge on object and int64 columns'')
          else
            (let extra = filter (\<lambda>c. c \<notin> set keys) (cols right)
             in Inr \<lparr>cols = cols left @ extra,
                     rws = concat (map (join_row right keys extra) (rws left))\<rparr>))"

section \<open>Checkpoint store and pipeline state\<close>

text \<open>An event of a run: a call of the \<^verbatim>\<open>DataProcessor\<close> with its argument, or a call of
  \<^verbatim>\<open>save_checkpoint\<close> with the identifier saved.\<close>

datatype api_call =
    FetchRecordData int
  | FetchBatchRecords cell
  | FetchDataCapture cell
  | FetchStructure int
  | SaveCheckpoint int

text \<open>
  What a pipeline run reads and writes: the status ledger; the identifier stored in the
  checkpoint file (\<^verbatim>\<open>None\<close>: no readable file); every identifier passed to
  \<^verbatim>\<open>save_checkpoint\<close>, in order; the artifact files by path; the events of the run, in
  the order in which they happen. The checkpoint's time stamp is not part of the model.
\<close>

record pipeline_state =
  tracking_df :: tracking
  checkpoint_file :: "int option"
  checkpoints_saved :: "int list"
  output_files :: "(string \<times> frame) list"
  api_calls :: "api_call list"

text \<open>\<^verbatim>\<open>load_checkpoint()['last_processed_id']\<close>; the default checkpoint holds -1.\<close>

definition load_checkpoint :: "pipeline_state \<Rightarrow> int" where
  "load_checkpoint s = (case checkpoint_file s of None \<Rightarrow> - 1 | Some last_id \<Rightarrow> last_id)"

definition save_checkpoint :: "pipeline_state \<Rightarrow> int \<Rightarrow> pipeline_state" where
  "save_checkpoint s last_id =
     s\<lparr>checkpoint_file := Some last_id, checkpoints_saved := checkpoints_saved s @ [last_id],
       api_calls := api_calls s @ [SaveCheckpoint last_id]\<rparr>"

definition log_status ::
  "pipeline_state \<Rightarrow> int \<Rightarrow> cell option \<Rightarrow> string \<Rightarrow> string \<Rightarrow> pipeline_state" where
  "log_status s production_record_id lot_number status reason =
     s\<lparr>tracking_df := log_status_df (tracking_df s) production_record_id lot_number status reason\<rparr>"

definition called :: "pipeline_state \<Rightarrow> api_call \<Rightarrow> pipeline_state" where
  "called s c = s\<lparr>api_calls := api_calls s @ [c]\<rparr>"

text \<open>The handler of \<^verbatim>\<open>process_record\<close>: \<^verbatim>\<open>except Exception as e\<close>.\<close>

definition log_exception :: "pipeline_state \<Rightarrow> int \<Rightarrow> py_exc \<Rightarrow> pipeline_state" where
  "log_exception s production_record_id e = log_status s production_record_id None ''Fail'' (str_exc e)"

text \<open>\<^verbatim>\<open>to_csv\<close> creates or overwrites the file.\<close>

definition to_csv :: "pipeline_state \<Rightarrow> string \<Rightarrow> frame \<Rightarrow> pipeline_state" where
  "to_csv s file_name df = s\<lparr>output_files := AList.update file_name df (output_files s)\<rparr>"

section \<open>Bulk pipeline (bulk\_fetch.py)\<close>

text \<open>Lines 83 to 95 of \<^verbatim>\<open>process_record\<close>: merge, write the artifact, log the success.\<close>

definition write_artifact_bulk ::
  "lib \<Rightarrow> string \<Rightarrow> pipeline_state \<Rightarrow> int \<Rightarrow> cell \<Rightarrow> frame \<Rightarrow> frame \<Rightarrow> frame \<Rightarrow> frame \<Rightarrow> frame \<Rightarrow>
   pipeline_state" where
  "write_artifact_bulk l output_data_dir s production_record_id lot_number
     record_df data_capture_df unit_df operation_df phase_df =
     (case merge_data_bulk l record_df data_capture_df unit_df operation_df phase_df of
        Inl e \<Rightarrow> log_exception s production_record_id e
      | Inr merged_df \<Rightarrow>
          log_status (to_csv s (output_data_dir @ py_str lot_number @ ''.csv'') merged_df)
            production_record_id (Some lot_number) ''Success'' '''')"

text \<open>
  \<^verbatim>\<open>process_record\<close> of bulk\_fetch.py. The structure tables are fetched after the
  primary lookup and before the fallback to the secondary lookup.
\<close>

definition process_record_bulk ::
  "lib \<Rightarrow> data_source \<Rightarrow> string \<Rightarrow> pipeline_state \<Rightarrow> int \<Rightarrow> pipeline_state" where
  "process_record_bulk l src output_data_dir s production_record_id =
     (let s1 = called s (FetchRecordData production_record_id) in
      case fetch_production_record_data (data_captures src) production_record_id of
        Inl e \<Rightarrow> log_exception s1 production_record_id e
      | Inr (lot_number, filtered_record_data_df) \<Rightarrow>
          if shape0 filtered_record_data_df = 0
          then log_status s1 production_record_id None ''Fail''
                 ''fetch_production_record_data returned empty''
          else
            (let s2 = called s1 (FetchBatchRecords lot_number) in
             case batch_records_by_lot src lot_number of
               Inl e \<Rightarrow> log_exception s2 production_record_id e
             | Inr filtered_data_capture_df \<Rightarrow>
                 (let s3 = called s2 (FetchStructure production_record_id) in
                  case production_structure_metadata src production_record_id of
                    Inl e \<Rightarrow> log_exception s3 production_record_id e
                  | Inr (unit_df, operation_df, phase_df) \<Rightarrow>
                      if shape0 filtered_data_capture_df = 0
                      then
                        (let s4 = called s3 (FetchDataCapture lot_number) in
                         case data_capture_by_lot src lot_number of
                           Inl e \<Rightarrow> log_exception s4 production_record_id e
                         | Inr alternative_df \<Rightarrow>
                             if shape0 alternative_df = 0
                             then log_status s4 production_record_id (Some lot_number) ''Fail''
                                    ''Both api_1 calls returned empty''
                             else write_artifact_bulk l output_data_dir s4 production_record_id
                                    lot_number filtered_record_data_df alternative_df
                                    unit_df operation_df phase_df)
                      else write_artifact_bulk l output_data_dir s3 production_record_id
                             lot_number filtered_record_data_df filtered_data_capture_df
                             unit_df operation_df phase_df)))"

text \<open>
  \<^verbatim>\<open>run\<close> of bulk\_fetch.py. The \<^verbatim>\<open>while\<close> loop need not end (a batch size below 1), so
  the function is partial: \<^verbatim>\<open>None\<close> is a run that never returns.
\<close>

partial_function (option) run_batches ::
  "(pipeline_state \<Rightarrow> int \<Rightarrow> pipeline_state) \<Rightarrow> pipeline_state \<Rightarrow> int \<Rightarrow> int \<Rightarrow> int \<Rightarrow>
   pipeline_state option" where
  "run_batches process s current_batch_start end_id batch_size =
     (if current_batch_start \<le> end_id
      then
        (let current_batch_end = min (current_batch_start + batch_size - 1) end_id;
             s' = foldl process s [current_batch_start..current_batch_end]
         in run_batches process (save_checkpoint s' current_batch_end) (current_batch_end + 1)
              end_id batch_size)
      else Some s)"

definition run_bulk ::
  "lib \<Rightarrow> data_source \<Rightarrow> string \<Rightarrow> pipeline_state \<Rightarrow> int \<Rightarrow> int \<Rightarrow> int \<Rightarrow> pipeline_state option" where
  "run_bulk l src output_data_dir s start_id end_id batch_size =
     run_batches (process_record_bulk l src output_data_dir) s start_id end_id batch_size"

text \<open>The command line: \<^verbatim>\<open>--start\<close>, \<^verbatim>\<open>--end\<close> (both optional) and \<^verbatim>\<open>--batch_size\<close>.\<close>

record cli_args =
  arg_start :: "int option"
  arg_end :: "int option"
  arg_batch_size :: int

text \<open>\<^verbatim>\<open>main\<close> of bulk\_fetch.py; \<^verbatim>\<open>DEFAULT_END_ID\<close> comes from the configuration.\<close>

definition main_bulk ::
  "lib \<Rightarrow> data_source \<Rightarrow> string \<Rightarrow> int \<Rightarrow> cli_args \<Rightarrow> pipeline_state \<Rightarrow> pipeline_state option" where
  "main_bulk l src output_data_dir default_end_id args s =
     (let start_id = (case arg_start args of Some a \<Rightarrow> a | None \<Rightarrow> load_checkpoint s + 1);
          start_id = (if start_id \<le> 0 then 0 else start_id);
          end_id = (case arg_end args of Some b \<Rightarrow> b | None \<Rightarrow> default_end_id)
      in run_bulk l src output_data_dir s start_id end_id (arg_batch_size args))"

section \<open>Incremental pipeline (incremental\_fetch.py)\<close>

text \<open>\<^verbatim>\<open>os.path.join\<close> of a directory and a file name.\<close>

definition os_path_join :: "string \<Rightarrow> string \<Rightarrow> string" where
  "os_path_join a b =
     (if b \<noteq> [] \<and> hd b = CHR ''/'' then b
      else if a = [] \<or> last a = CHR ''/'' then a @ b
      else a @ ''/'' @ b)"

definition log_failure :: "pipeline_state \<Rightarrow> int \<Rightarrow> string \<Rightarrow> cell option \<Rightarrow> pipeline_state" where
  "log_failure s record_id reason lot_number = log_status s record_id lot_number ''Fail'' reason"

text \<open>Lines 70 to 77 of \<^verbatim>\<open>process_record\<close>: fetch the structure tables, merge, write the
  artifact, log the success.\<close>

definition write_artifact_incr ::
  "lib \<Rightarrow> data_source \<Rightarrow> string \<Rightarrow> pipeline_state \<Rightarrow> int \<Rightarrow> cell \<Rightarrow> frame \<Rightarrow> frame \<Rightarrow>
   pipeline_state" where
  "write_artifact_incr l src incr_output_data_dir s production_record_id lot_number
     record_df capture_df =
     (let s' = called s (FetchStructure production_record_id) in
      case production_structure_metadata src production_record_id of
        Inl e \<Rightarrow> log_exception s' production_record_id e
      | Inr (unit_df, op_df, phase_df) \<Rightarrow>
          (case merge_data_incr l record_df capture_df unit_df op_df phase_df of
             Inl e \<Rightarrow> log_exception s' production_record_id e
           | Inr merged_df \<Rightarrow>
               log_status
                 (to_csv s' (os_path_join incr_output_data_dir (py_str lot_number @ ''.csv''))
                    merged_df)
                 production_record_id (Some lot_number) ''Success'' ''''))"

text \<open>
  \<^verbatim>\<open>process_record\<close> of incremental\_fetch.py. The structure tables are fetched after
  the lot summary is settled.
\<close>

definition process_record_incr ::
  "lib \<Rightarrow> data_source \<Rightarrow> string \<Rightarrow> pipeline_state \<Rightarrow> int \<Rightarrow> pipeline_state" where
  "process_record_incr l src incr_output_data_dir s production_record_id =
     (let s1 = called s (FetchRecordData production_record_id) in
      case fetch_production_record_data (data_captures src) production_record_id of
        Inl e \<Rightarrow> log_exception s1 production_record_id e
      | Inr (lot_number, record_df) \<Rightarrow>
          if df_empty record_df
          then log_failure s1 production_record_id
                 ''fetch_production_record_data returned empty'' None
          else
            (let s2 = called s1 (FetchBatchRecords lot_number) in
             case batch_records_by_lot src lot_number of
               Inl e \<Rightarrow> log_exception s2 production_record_id e
             | Inr capture_df \<Rightarrow>
                 if df_empty capture_df
                 then
                   (let s3 = called s2 (FetchDataCapture lot_number) in
                    case data_capture_by_lot src lot_number of
                      Inl e \<Rightarrow> log_exception s3 production_record_id e
                    | Inr alternative_df \<Rightarrow>
                        if df_empty alternative_df
                        then log_failure s3 production_record_id
                               ''Both API calls returned empty'' (Some lot_number)
                        else write_artifact_incr l src incr_output_data_dir s3
                               production_record_id lot_number record_df alternative_df)
                 else write_artifact_incr l src incr_output_data_dir s2
                        production_record_id lot_number record_df capture_df))"




section \<open>Loader (data\_load\_system)\<close>

text \<open>
  The destination store. \<^verbatim>\<open>lots\<close> is keyed by lot number; \<^verbatim>\<open>lot_data\<close> and
  \<^verbatim>\<open>file_processing_history\<close> carry a serial id, drawn from the sequences
  \<^verbatim>\<open>lot_data_seq\<close> and \<^verbatim>\<open>history_seq\<close> (the last value handed out). Time stamps are the value of
  \<^verbatim>\<open>CURRENT_TIMESTAMP\<close> in the transaction, an argument of each operation. A detail
  row keeps the twelve inserted values after the lot number in \<^verbatim>\<open>ld_values\<close>, in the
  order of \<^verbatim>\<open>INSERT_LOT_DATA\<close>.
\<close>

record lot_row =
  lr_product_id :: cell
  lr_product_name :: cell
  lr_status :: cell
  lr_first_loaded :: nat
  lr_last_updated :: nat

record lot_data_row =
  ld_id :: nat
  ld_lot_number :: cell
  ld_values :: "cell list"
  ld_created_at :: nat

record history_row =
  h_id :: nat
  h_filename :: string
  h_lot_number :: cell
  h_process_type :: string
  h_processed_at :: nat
  h_record_count :: nat
  h_source_directory :: string
  h_target_directory :: string
  h_status :: string
  h_message :: string

record database =
  lots :: "(cell \<times> lot_row) list"
  lot_data :: "lot_data_row list"
  file_processing_history :: "history_row list"
  lot_data_seq :: nat
  history_seq :: nat

text \<open>database/operations.py with sql/queries.py.\<close>

definition check_lot_exists :: "database \<Rightarrow> cell \<Rightarrow> lot_row option" where
  "check_lot_exists db lot_number = map_of (lots db) lot_number"

definition insert_lot :: "database \<Rightarrow> nat \<Rightarrow> cell \<Rightarrow> cell \<Rightarrow> cell \<Rightarrow> cell \<Rightarrow> database" where
  "insert_lot db now lot_number product_id product_name status =
     db\<lparr>lots := lots db @
           [(lot_number, \<lparr>lr_product_id = product_id, lr_product_name = product_name,
                          lr_status = status, lr_first_loaded = now, lr_last_updated = now\<rparr>)]\<rparr>"

definition update_lot :: "database \<Rightarrow> nat \<Rightarrow> cell \<Rightarrow> cell \<Rightarrow> cell \<Rightarrow> cell \<Rightarrow> database" where
  "update_lot db now lot_number product_id product_name status =
     db\<lparr>lots := map (\<lambda>(k, r). if k = lot_number
                               then (k, r\<lparr>lr_product_id := product_id,
                                         lr_product_name := product_name, lr_status := status,
                                         lr_last_updated := now\<rparr>)
                               else (k, r)) (lots db)\<rparr>"

definition delete_lot_data :: "database \<Rightarrow> cell \<Rightarrow> database" where
  "delete_lot_data db lot_number =
     db\<lparr>lot_data := filter (\<lambda>r. ld_lot_number r \<noteq> lot_number) (lot_data db)\<rparr>"

text \<open>The serial id of a new row is the next value of the table's sequence, which a
  deletion does not set back.\<close>

definition insert_lot_data :: "database \<Rightarrow> nat \<Rightarrow> (cell \<times> cell list) list \<Rightarrow> database" where
  "insert_lot_data db now data_to_insert =
     db\<lparr>lot_data := lot_data db @
           map (\<lambda>(i, (lot_number, vals)).
                  \<lparr>ld_id = Suc (lot_data_seq db) + i, ld_lot_number = lot_number,
                   ld_values = vals, ld_created_at = now\<rparr>)
               (enumerate 0 data_to_insert),
        lot_data_seq := lot_data_seq db + length data_to_insert\<rparr>"

definition log_processing_history ::
  "database \<Rightarrow> nat \<Rightarrow> string \<Rightarrow> cell \<Rightarrow> string \<Rightarrow> nat \<Rightarrow> string \<Rightarrow> string \<Rightarrow> string \<Rightarrow> string \<Rightarrow>
   database" where
  "log_processing_history db now filename lot_number process_type record_count
     source_dir target_dir status message =
     db\<lparr>file_processing_history := file_processing_history db @
           [\<lparr>h_id = Suc (history_seq db), h_filename = filename,
             h_lot_number = lot_number, h_process_type = process_type, h_processed_at = now,
             h_record_count = record_count, h_source_directory = source_dir,
             h_target_directory = target_dir, h_status = status, h_message = message\<rparr>],
        history_seq := Suc (history_seq db)\<rparr>"

text \<open>\<^verbatim>\<open>os.path.splitext(filename)[0]\<close>: the name without its last extension; leading dots
  do not start an extension.\<close>

definition splitext_root :: "string \<Rightarrow> string" where
  "splitext_root f =
     (let stem = rev (tl (dropWhile (\<lambda>c. c \<noteq> CHR ''.'') (rev f)))
      in if CHR ''.'' \<in> set f \<and> list_ex (\<lambda>c. c \<noteq> CHR ''.'') stem then stem else f)"

text \<open>\<^verbatim>\<open>calculate_row_hash\<close>; the digest function is an argument.\<close>

definition calculate_row_hash :: "(string \<Rightarrow> string) \<Rightarrow> row \<Rightarrow> cell" where
  "calculate_row_hash md5 r =
     CStr (md5 (py_str (cell_at r ''Structure Label'') @ ''|'' @ py_str (cell_at r ''Description'')
                @ ''|'' @ py_str (cell_at r ''Input Data Value'') @ ''|'' @
                py_str (cell_at r ''Data Capture Time'')))"

definition hash_columns :: "string list" where
  "hash_columns = [''Structure Label'', ''Description'', ''Input Data Value'', ''Data Capture Time'']"

text \<open>\<^verbatim>\<open>df[c].iloc[0] if c in df.columns and len(df) > 0 else ''\<close>\<close>

definition first_or_blank :: "frame \<Rightarrow> string \<Rightarrow> cell" where
  "first_or_blank df c =
     (if c \<in> set (cols df) \<and> 0 < length (rws df) then cell_at (hd (rws df)) c else CStr '''')"

definition extract_lot_info :: "frame \<Rightarrow> string \<Rightarrow> cell \<times> cell \<times> cell \<times> cell" where
  "extract_lot_info df filename_lot_number =
     (let lot_number =
            (if ''Lot Number'' \<in> set (cols df) \<and> 0 < length (rws df)
             then (let extracted_lot_number = cell_at (hd (rws df)) ''Lot Number''
                   in if extracted_lot_number \<noteq> CStr filename_lot_number
                      then extracted_lot_number else CStr filename_lot_number)
             else CStr filename_lot_number)
      in (lot_number, first_or_blank df ''Product ID'', first_or_blank df ''Master Template Name'',
          first_or_blank df ''Production Record Status''))"

text \<open>\<^verbatim>\<open>row.get(c, default)\<close>\<close>

definition row_get :: "frame \<Rightarrow> row \<Rightarrow> string \<Rightarrow> cell \<Rightarrow> cell" where
  "row_get df r c dflt = (if c \<in> set (cols df) then cell_at r c else dflt)"

definition prepare_data_for_insert :: "frame \<Rightarrow> cell \<Rightarrow> (cell \<times> cell list) list" where
  "prepare_data_for_insert df lot_number =
     map (\<lambda>r. (lot_number,
                [row_get df r ''Master Template Name'' (CStr ''''),
                 row_get df r ''Unit'' (CStr ''''),
                 row_get df r ''Operation'' (CStr ''''),
                 row_get df r ''Phase'' (CStr ''''),
                 row_get df r ''Data Capture Time'' CNaN,
                 row_get df r ''Structure Label'' (CStr ''''),
                 row_get df r ''Description'' (CStr ''''),
                 row_get df r ''Input Data Value'' (CStr ''''),
                 row_get df r ''Performed By'' (CStr ''''),
                 row_get df r ''Action Performed'' (CStr ''''),
                 row_get df r ''Captured Data Type'' (CStr ''''),
                 row_get df r ''data_hash'' (CStr '''')]))
         (rws df)"

text \<open>Adding the hash column and converting the capture time, lines 78 to 83. A frame
  without one of the hashed columns raises \<^verbatim>\<open>KeyError\<close>.\<close>

definition add_hash_and_time ::
  "(string \<Rightarrow> string) \<Rightarrow> (cell \<Rightarrow> cell) \<Rightarrow> frame \<Rightarrow> py_exc + frame" where
  "add_hash_and_time md5 to_datetime df =
     (case filter (\<lambda>c. c \<notin> set (cols df)) hash_columns of
        c # _ \<Rightarrow> Inl (KeyError c)
      | [] \<Rightarrow>
          Inr (map_col
                 \<lparr>cols = (if ''data_hash'' \<in> set (cols df) then cols df else cols df @ [''data_hash'']),
                  rws = map (\<lambda>r. AList.update ''data_hash'' (calculate_row_hash md5 r) r) (rws df)\<rparr>
                 ''Data Capture Time'' to_datetime))"

text \<open>
  \<^verbatim>\<open>process_csv_file\<close>. \<open>parsed\<close> is the outcome of \<^verbatim>\<open>pd.read_csv(file_path)\<close>, the
  file is \<open>source_dir/filename\<close>, \<open>processed_dir\<close> is the configured directory of
  processed files. The result is the returned count and the store after the call. The
  steps before the cursor is opened are the ones that raise here; the handler rolls the
  transaction back, which leaves the store as it was, and records the failure.
\<close>

definition process_csv_file ::
  "(string \<Rightarrow> string) \<Rightarrow> (cell \<Rightarrow> cell) \<Rightarrow> string \<Rightarrow> nat \<Rightarrow> py_exc + frame \<Rightarrow> string \<Rightarrow> string \<Rightarrow>
   string \<Rightarrow> database \<Rightarrow> nat \<times> database" where
  "process_csv_file md5 to_datetime processed_dir now parsed source_dir filename process_type db =
     (let filename_lot_number = splitext_root filename in
      case parsed of
        Inl e \<Rightarrow>
          (0, log_processing_history db now filename (CStr filename_lot_number) process_type 0
                source_dir '''' ''error'' (str_exc e))
      | Inr df \<Rightarrow>
          if df_empty df then (0, db)
          else
            (case extract_lot_info df filename_lot_number of
               (lot_number, product_id, product_name, status) \<Rightarrow>
                 (case add_hash_and_time md5 to_datetime df of
                    Inl e \<Rightarrow>
                      (0, log_processing_history db now filename (CStr filename_lot_number)
                            process_type 0 source_dir '''' ''error'' (str_exc e))
                  | Inr df' \<Rightarrow>
                      (let db1 = (case check_lot_exists db lot_number of
                                    Some lot \<Rightarrow>
                                      update_lot db now lot_number product_id product_name status
                                  | None \<Rightarrow>
                                      insert_lot db now lot_number product_id product_name status);
                           db2 = (if process_type = ''incremental_load''
                                  then delete_lot_data db1 lot_number else db1);
                           data_to_insert = prepare_data_for_insert df' lot_number;
                           db3 = insert_lot_data db2 now data_to_insert;
                           db4 = log_processing_history db3 now filename lot_number process_type
                                   (length data_to_insert) source_dir processed_dir ''success''
                                   (''Processed '' @ str_nat (length data_to_insert) @ '' records'')
                       in (length data_to_insert, db4)))))"


section \<open>Batch ends of an identifier range\<close>





text \<open>The events that mark the progress of a run: the capture fetch that opens the
  processing of a record, and the saving of a checkpoint.\<close>

fun is_progress :: "api_call \<Rightarrow> bool" where
  "is_progress (FetchRecordData i) = True"
| "is_progress (SaveCheckpoint i) = True"
| "is_progress c = False"

section \<open>Example inputs\<close>

text \<open>An artifact of one row for lot L1, and a store that already holds a detail row of
  lot L1 and one of lot L2.\<close>

definition example_artifact :: frame where
  "example_artifact =
     \<lparr>cols = output_columns,
      rws = [[(''Master Template Name'', CStr ''Buffer''), (''Lot Number'', CStr ''L1''),
              (''Product ID'', CStr ''P-9''), (''Unit'', CStr ''Mixing''),
              (''Operation'', CStr ''Weigh''), (''Phase'', CStr ''''),
              (''Data Capture Time'', CStr ''3/1/2024 13:05''),
              (''Production Record Status'', CStr ''COMPLETE''),
              (''Structure Label'', CStr ''1.1''), (''Description'', CStr ''Net weight''),
              (''Input Data Value'', CStr ''12.5''), (''Performed By'', CStr ''jdoe''),
              (''Action Performed'', CStr ''ENTERED''), (''Captured Data Type'', CStr ''NUMERIC'')]]\<rparr>"

definition example_store :: database where
  "example_store =
     \<lparr>lots = [(CStr ''L1'', \<lparr>lr_product_id = CStr ''P-9'', lr_product_name = CStr ''Buffer'',
                             lr_status = CStr ''OPEN'', lr_first_loaded = 0, lr_last_updated = 0\<rparr>),
              (CStr ''L2'', \<lparr>lr_product_id = CStr ''P-7'', lr_product_name = CStr ''Saline'',
                             lr_status = CStr ''OPEN'', lr_first_loaded = 0, lr_last_updated = 0\<rparr>)],
      lot_data = [\<lparr>ld_id = 1, ld_lot_number = CStr ''L1'', ld_values = [CStr ''old''],
                   ld_created_at = 0\<rparr>,
                  \<lparr>ld_id = 2, ld_lot_number = CStr ''L2'', ld_values = [CStr ''other''],
                   ld_created_at = 0\<rparr>],
      file_processing_history = [], lot_data_seq = 2, history_seq = 0\<rparr>"


text \<open>
  A record of two current captures, the first one naming lot L1; its lot summary; its
  structure tables; and the library with the left join, the timestamp reader and a fixed
  offset of minus five hours.
\<close>

definition example_creation :: capture_item where
  "example_creation =
     \<lparr>ci_current = True, ci_iterationNumber = None, ci_orderLabel = ''0'',
      ci_productionRecordId = CInt 7, ci_masterTemplateId = CInt 3, ci_unitProcedureId = CInt 10,
      ci_operationId = CInt 20, ci_phaseId = CInt 30, ci_title = ''L1'', ci_value = '''',
      ci_userName = ''jdoe'', ci_dateTime = ''2024-03-01T18:05:00Z'', ci_actionTaken = ''CREATED'',
      ci_dataCaptureName = ''BATCH_RECORD_CREATION''\<rparr>"

definition example_weight :: capture_item where
  "example_weight =
     \<lparr>ci_current = True, ci_iterationNumber = Some 2, ci_orderLabel = ''1.1'',
      ci_productionRecordId = CInt 7, ci_masterTemplateId = CInt 3, ci_unitProcedureId = CInt 10,
      ci_operationId = CInt 20, ci_phaseId = CInt 30, ci_title = ''Net weight'', ci_value = ''12.5'',
      ci_userName = ''jdoe'', ci_dateTime = ''2024-03-01T18:05:00Z'', ci_actionTaken = ''ENTERED'',
      ci_dataCaptureName = ''NUMERIC''\<rparr>"

definition example_summary :: frame where
  "example_summary =
     \<lparr>cols = [''lotNumber'', ''productId'', ''productName'', ''status''],
      rws = [[(''lotNumber'', CStr ''L1''), (''productId'', CStr ''P-9''),
              (''productName'', CStr ''Buffer''), (''status'', CStr ''COMPLETE'')]]\<rparr>"

definition example_unit_df :: frame where
  "example_unit_df =
     \<lparr>cols = [''masterTemplateId'', ''unitProcedureId'', ''Unit''],
      rws = [[(''masterTemplateId'', CInt 3), (''unitProcedureId'', CInt 10),
              (''Unit'', CStr ''Mixing'')]]\<rparr>"

definition example_operation_df :: frame where
  "example_operation_df =
     \<lparr>cols = [''masterTemplateId'', ''unitProcedureId'', ''operationId'', ''Operation''],
      rws = [[(''masterTemplateId'', CInt 3), (''unitProcedureId'', CInt 10),
              (''operationId'', CInt 20), (''Operation'', CStr ''Weigh'')]]\<rparr>"

definition example_phase_df :: frame where
  "example_phase_df =
     \<lparr>cols = [''masterTemplateId'', ''unitProcedureId'', ''operationId'', ''phaseId'', ''Phase''],
      rws = [[(''masterTemplateId'', CInt 3), (''unitProcedureId'', CInt 10),
              (''operationId'', CInt 20), (''phaseId'', CInt 30), (''Phase'', CStr ''Tare'')]]\<rparr>"

definition example_lib :: lib where
  "example_lib = \<lparr>pd_merge = left_join, dt_parse = parse_iso_z, eastern_offset = (\<lambda>u. - 300)\<rparr>"

definition initial_state :: pipeline_state where
  "initial_state =
     \<lparr>tracking_df = [], checkpoint_file = None, checkpoints_saved = [], output_files = [],
      api_calls = []\<rparr>"

definition example_source :: data_source where
  "example_source =
     \<lparr>data_captures = (\<lambda>i. Inr [example_creation, example_weight]),
      batch_records_by_lot = (\<lambda>lot. Inr example_summary),
      data_capture_by_lot = (\<lambda>lot. Inr empty_frame),
      production_structure_metadata =
        (\<lambda>i. Inr (example_unit_df, example_operation_df, example_phase_df))\<rparr>"

text \<open>A frame of one capture row reduced to its four keys. A key given as the empty
  string is what \<^verbatim>\<open>ensure_required_columns\<close> fills in for a column the source did
  not send.\<close>

definition example_keys :: "cell \<Rightarrow> cell \<Rightarrow> cell \<Rightarrow> frame" where
  "example_keys unit_id operation_id phase_id =
     \<lparr>cols = [''masterTemplateId'', ''unitProcedureId'', ''operationId'', ''phaseId''],
      rws = [[(''masterTemplateId'', CInt 3), (''unitProcedureId'', unit_id),
              (''operationId'', operation_id), (''phaseId'', phase_id)]]\<rparr>"

text \<open>The structure document of the example record: one unit procedure, one operation
  and one phase.\<close>

definition example_structure :: "structure_item list" where
  "example_structure =
     [\<lparr>si_title = ''Mixing'', si_level = ''UNIT_PROCEDURE'', si_masterTemplateId = CInt 3,
       si_unitProcedureId = CInt 10, si_operationId = CNaN, si_phaseId = CNaN\<rparr>,
      \<lparr>si_title = ''Weigh'', si_level = ''OPERATION'', si_masterTemplateId = CInt 3,
       si_unitProcedureId = CInt 10, si_operationId = CInt 20, si_phaseId = CNaN\<rparr>,
      \<lparr>si_title = ''Tare'', si_level = ''PHASE'', si_masterTemplateId = CInt 3,
       si_unitProcedureId = CInt 10, si_operationId = CInt 20, si_phaseId = CInt 30\<rparr>]"

section \<open>Properties of the shared values\<close>

lemma str_nat_digit: "n < 10 \<Longrightarrow> str_nat n = [digit_char n]"
  by (subst str_nat.simps) simp

section \<open>Properties of the status ledger\<close>

text \<open>The query looks at the first row of the identifier and at no other.\<close>

lemma is_already_processed_first_row:
  "is_already_processed df i =
     (case find (\<lambda>e. se_record_id e = i) df of
        None \<Rightarrow> False
      | Some e \<Rightarrow> se_status e = ''Success'')"
  by (induction df) (auto simp: is_already_processed_def)

text \<open>
  Claim C2. The ledger's query is meant to answer whether some row of the identifier has
  status Success. At the ledger \<^verbatim>\<open>[(5, None, Fail, timeout), (5, L1, Success, )]\<close>,
  a failed attempt followed by a successful retry, the second row is a Success row of
  identifier 5 and the query still answers False.
\<close>

theorem is_already_processed_misses_later_success:
  "se_record_id
     ([\<lparr>se_record_id = 5, se_lot_number = None, se_status = ''Fail'', se_reason = ''timeout''\<rparr>,
       \<lparr>se_record_id = 5, se_lot_number = Some (CStr ''L1''), se_status = ''Success'',
        se_reason = ''''\<rparr>] ! 1) = 5
   \<and> se_status
     ([\<lparr>se_record_id = 5, se_lot_number = None, se_status = ''Fail'', se_reason = ''timeout''\<rparr>,
       \<lparr>se_record_id = 5, se_lot_number = Some (CStr ''L1''), se_status = ''Success'',
        se_reason = ''''\<rparr>] ! 1) = ''Success''
   \<and> is_already_processed
     [\<lparr>se_record_id = 5, se_lot_number = None, se_status = ''Fail'', se_reason = ''timeout''\<rparr>,
      \<lparr>se_record_id = 5, se_lot_number = Some (CStr ''L1''), se_status = ''Success'',
       se_reason = ''''\<rparr>] 5 = False"
  by (simp add: is_already_processed_def)

section \<open>Properties of the paginated fetcher\<close>

text \<open>One turn of the loop on a page of a recognised shape.\<close>

lemma fetch_pages_step:
  assumes "get (page_url b ps p) = Some e" and "carries e c l"
  shows "fetch_pages get b ps p acc req =
     (if get_last l then Some (acc @ c, req @ [page_url b ps p])
      else fetch_pages get b ps (p + 1) (acc @ c) (req @ [page_url b ps p]))"
  using assms by (cases e) (subst fetch_pages.simps, simp add: Let_def)+

text \<open>
  Claim C6. A source whose pages 0, 1 and 2 carry contents \<open>c0\<close>, \<open>c1\<close>, \<open>c2\<close>
  with last flags false, false and true (or no flag on the third page, which counts as
  true): the fetch returns, its result is \<open>c0 @ c1 @ c2\<close>, and it requested exactly the
  URLs of pages 0, 1, 2 in this order, so nothing after the page flagged last.
\<close>

theorem fetch_paginated_data_three_pages:
  assumes "get (page_url b ps 0) = Some e0" and "carries e0 c0 (Some False)"
      and "get (page_url b ps 1) = Some e1" and "carries e1 c1 (Some False)"
      and "get (page_url b ps 2) = Some e2" and "carries e2 c2 l2"
      and "l2 = Some True \<or> l2 = None"
  shows "fetch_paginated_data get b ps =
     Some (c0 @ c1 @ c2, [page_url b ps 0, page_url b ps 1, page_url b ps 2])"
proof -
  have l2: "get_last l2"
    using assms(7) by (auto simp: get_last_def)
  have "fetch_pages get b ps 0 [] [] = fetch_pages get b ps 1 c0 [page_url b ps 0]"
    using fetch_pages_step [of get b ps 0 e0 c0 "Some False" "[]" "[]"] assms(1,2)
    by (simp add: get_last_def)
  also have "\<dots> = fetch_pages get b ps 2 (c0 @ c1) [page_url b ps 0, page_url b ps 1]"
    using fetch_pages_step [of get b ps 1 e1 c1 "Some False" c0 "[page_url b ps 0]"] assms(3,4)
    by (simp add: get_last_def numeral_2_eq_2)
  also have "\<dots> = Some (c0 @ c1 @ c2, [page_url b ps 0, page_url b ps 1, page_url b ps 2])"
    using fetch_pages_step [of get b ps 2 e2 c2 l2 "c0 @ c1" "[page_url b ps 0, page_url b ps 1]"]
      assms(5,6) l2
    by (simp add: numeral_2_eq_2)
  finally show ?thesis
    by (simp add: fetch_paginated_data_def)
qed

theorem fetch_paginated_data_three_pages_witness:
  "fetch_paginated_data
     (\<lambda>url. if url = ''api?currentPage=0&itemsPerPage=1000&lotNumber=7''
              then Some (Content [1, 2 :: nat] (Some False))
            else if url = ''api?currentPage=1&itemsPerPage=1000&lotNumber=7''
              then Some (PageResult (Some [3]) (Some False))
            else if url = ''api?currentPage=2&itemsPerPage=1000&lotNumber=7''
              then Some (Content [4, 5] None)
            else None)
     ''api'' [(''lotNumber'', ''7'')] =
   Some ([1, 2, 3, 4, 5],
         [''api?currentPage=0&itemsPerPage=1000&lotNumber=7'',
          ''api?currentPage=1&itemsPerPage=1000&lotNumber=7'',
          ''api?currentPage=2&itemsPerPage=1000&lotNumber=7''])"
  using fetch_paginated_data_three_pages
    [of "\<lambda>url. if url = ''api?currentPage=0&itemsPerPage=1000&lotNumber=7''
              then Some (Content [1, 2 :: nat] (Some False))
            else if url = ''api?currentPage=1&itemsPerPage=1000&lotNumber=7''
              then Some (PageResult (Some [3]) (Some False))
            else if url = ''api?currentPage=2&itemsPerPage=1000&lotNumber=7''
              then Some (Content [4, 5] None)
            else None"
        "''api''" "[(''lotNumber'', ''7'')]"
        "Content [1, 2] (Some False)" "[1, 2]"
        "PageResult (Some [3]) (Some False)" "[3]"
        "Content [4, 5] None" "[4, 5]" None]
  by (simp add: page_url_def str_nat_digit digit_char_def)

section \<open>Properties of decimal rendering\<close>

lemma str_nat_ge10: "10 \<le> n \<Longrightarrow> str_nat n = str_nat (n div 10) @ [digit_char (n mod 10)]"
  by (subst str_nat.simps) simp

lemma str_nat_not_Nil: "str_nat n \<noteq> []"
  by (subst str_nat.simps) simp

text \<open>The decimal rendering of a positive number does not start with the digit zero.\<close>

lemma str_nat_no_leading_zero: "0 < n \<Longrightarrow> hd (str_nat n) \<noteq> CHR ''0''"
proof (induction n rule: str_nat.induct)
  case (1 n)
  show ?case
  proof (cases "n < 10")
    case True
    with 1(2) have "n \<in> {1, 2, 3, 4, 5, 6, 7, 8, 9}"
      by auto
    then show ?thesis
      by (auto simp: str_nat_digit digit_char_def)
  next
    case False
    then have "0 < n div 10"
      by simp
    with 1 False have "hd (str_nat (n div 10)) \<noteq> CHR ''0''"
      by simp
    then show ?thesis
      using False by (simp add: str_nat_ge10 str_nat_not_Nil)
  qed
qed

lemma str_int_no_leading_zero: "0 < i \<Longrightarrow> hd (str_int i) \<noteq> CHR ''0''"
  by (simp add: str_int_def str_nat_no_leading_zero)

lemma length_str_nat_two: "10 \<le> n \<Longrightarrow> n < 100 \<Longrightarrow> length (str_nat n) = 2"
  by (simp add: str_nat_ge10 str_nat_digit)

lemma length_strftime_M:
  assumes "0 \<le> dt_minute d" and "dt_minute d < 60"
  shows "length (strftime_M d) = 2"
proof (cases "dt_minute d < 10")
  case True
  with assms show ?thesis
    by (simp add: strftime_M_def str_int_def str_nat_digit)
next
  case False
  with assms have "10 \<le> nat (dt_minute d)" and "nat (dt_minute d) < 100"
    by auto
  then have "length (str_nat (nat (dt_minute d))) = 2"
    by (rule length_str_nat_two)
  with False assms show ?thesis
    by (simp add: strftime_M_def str_int_def)
qed

section \<open>Properties of the timestamp reformatter\<close>

text \<open>A conversion that stays within the day only moves the clock.\<close>

lemma astimezone_same_day:
  assumes "dt_tzinfo d = Some 0"
      and "0 \<le> dt_hour d * 60 + dt_minute d + k" and "dt_hour d * 60 + dt_minute d + k < 1440"
  shows "astimezone d k =
     Inr (d\<lparr>dt_hour := (dt_hour d * 60 + dt_minute d + k) div 60,
            dt_minute := (dt_hour d * 60 + dt_minute d + k) mod 60, dt_tzinfo := Some k\<rparr>)"
  using assms by (simp add: astimezone_def set_clock_def Let_def)

text \<open>
  Claim C7, as the code has it. When the string parses to \<open>dt\<close>, \<open>u\<close> is its UTC value
  and \<open>et\<close> the value of \<open>u\<close> in the target zone, the result is month, day, year and
  hour of \<open>et\<close> in plain decimal, without a leading zero, and the minute on exactly two
  digits, zero-padded; nothing is logged. When the string does not parse, the result is
  the string itself and one error line is logged.
\<close>

theorem reformat_datetime_format:
  "(parse s = Inr dt \<and>
    (if dt_tzinfo dt = None then Inr (dt\<lparr>dt_tzinfo := Some 0\<rparr>) else astimezone dt 0) = Inr u \<and>
    astimezone u (eastern u) = Inr et \<longrightarrow>
      reformat_datetime parse eastern s =
        (str_int (dt_month et) @ ''/'' @ str_int (dt_day et) @ ''/'' @ str_int (dt_year et) @
         '' '' @ str_int (dt_hour et) @ '':'' @ strftime_M et, []) \<and>
      (0 < dt_month et \<longrightarrow> hd (str_int (dt_month et)) \<noteq> CHR ''0'') \<and>
      (0 < dt_day et \<longrightarrow> hd (str_int (dt_day et)) \<noteq> CHR ''0'') \<and>
      (0 < dt_hour et \<longrightarrow> hd (str_int (dt_hour et)) \<noteq> CHR ''0'') \<and>
      (dt_hour et = 0 \<longrightarrow> str_int (dt_hour et) = ''0'') \<and>
      (0 \<le> dt_minute et \<and> dt_minute et < 60 \<longrightarrow> length (strftime_M et) = 2)) \<and>
   (parse s = Inl e \<longrightarrow>
      reformat_datetime parse eastern s =
        (s, [''Error reformatting datetime '' @ s @ '': '' @ str_exc e]))"
proof -
  have zero: "str_int 0 = ''0''"
    by (simp add: str_int_def str_nat_digit digit_char_def)
  show ?thesis
    by (auto simp: reformat_datetime_def reformat_error_def str_int_no_leading_zero
        length_strftime_M zero)
qed

theorem reformat_datetime_format_witness:
  "reformat_datetime parse_iso_z (\<lambda>u. - 300) ''2024-03-01T18:05:00Z'' = (''3/1/2024 13:05'', []) \<and>
   reformat_datetime parse_iso_z (\<lambda>u. - 300) ''yesterday'' =
     (''yesterday'', [''Error reformatting datetime yesterday: Unknown string format: yesterday''])"
proof -
  have parsed: "parse_iso_z ''2024-03-01T18:05:00Z'' =
      Inr \<lparr>dt_year = 2024, dt_month = 3, dt_day = 1, dt_hour = 18, dt_minute = 5, dt_second = 0,
           dt_tzinfo = Some 0\<rparr>"
    by (simp add: parse_iso_z_def field_val_def digit_val_def days_in_month_def)
  have first: "reformat_datetime parse_iso_z (\<lambda>u. - 300) ''2024-03-01T18:05:00Z'' =
      (''3/1/2024 13:05'', [])"
    using reformat_datetime_format
      [of parse_iso_z "''2024-03-01T18:05:00Z''"
        "\<lparr>dt_year = 2024, dt_month = 3, dt_day = 1, dt_hour = 18, dt_minute = 5, dt_second = 0,
          dt_tzinfo = Some 0\<rparr>"
        "\<lparr>dt_year = 2024, dt_month = 3, dt_day = 1, dt_hour = 18, dt_minute = 5, dt_second = 0,
          dt_tzinfo = Some 0\<rparr>"
        "\<lambda>u. - 300"
        "\<lparr>dt_year = 2024, dt_month = 3, dt_day = 1, dt_hour = 13, dt_minute = 5, dt_second = 0,
          dt_tzinfo = Some (- 300)\<rparr>"]
      parsed
    by (simp add: astimezone_def set_clock_def strftime_M_def str_int_def str_nat_digit
        str_nat_ge10 digit_char_def)
  have unparsed: "parse_iso_z ''yesterday'' = Inl (ValueError ''Unknown string format: yesterday'')"
    by (simp add: parse_iso_z_def)
  have second: "reformat_datetime parse_iso_z (\<lambda>u. - 300) ''yesterday'' =
      (''yesterday'', [''Error reformatting datetime yesterday: Unknown string format: yesterday''])"
    using reformat_datetime_format
      [of parse_iso_z "''yesterday''" _ _ "\<lambda>u. - 300" _ "ValueError ''Unknown string format: yesterday''"]
      unparsed
    by simp
  from first second show ?thesis
    by simp
qed

text \<open>
  The example of claim C7: at 18:05 UTC on 1 March 2024 and an offset of minus five hours
  the result is \<^verbatim>\<open>3/1/2024 13:05\<close>, with the minute zero-padded, and not
  \<^verbatim>\<open>3/1/2024 13:5\<close>.
\<close>

theorem reformat_datetime_example_counterexample:
  "fst (reformat_datetime parse_iso_z (\<lambda>u. - 300) ''2024-03-01T18:05:00Z'') = ''3/1/2024 13:05'' \<and>
   fst (reformat_datetime parse_iso_z (\<lambda>u. - 300) ''2024-03-01T18:05:00Z'') \<noteq> ''3/1/2024 13:5''"
  by (simp add: reformat_datetime_def parse_iso_z_def field_val_def digit_val_def
      days_in_month_def astimezone_def set_clock_def strftime_M_def str_int_def str_nat_digit
      str_nat_ge10 digit_char_def)

section \<open>Properties of the loader\<close>

lemma lot_data_log_processing_history [simp]:
  "lot_data (log_processing_history db now f ln pt n sd td st m) = lot_data db"
  by (simp add: log_processing_history_def)

lemma lot_data_upsert [simp]:
  "lot_data (insert_lot db now ln a b c) = lot_data db"
  "lot_data (update_lot db now ln a b c) = lot_data db"
  by (simp_all add: insert_lot_def update_lot_def)
















text \<open>
  Claim C10. An artifact that parses to a frame without rows: the call returns 0 and the
  store after the call is the store before it, so no lot, no detail row and no history
  entry is written or removed.
\<close>

theorem process_csv_file_zero_rows:
  "parsed = Inr df \<Longrightarrow> rws df = [] \<Longrightarrow>
   process_csv_file digest td pd now parsed sd fn pt db = (0, db)"
  by (simp add: process_csv_file_def df_empty_def)

theorem process_csv_file_zero_rows_witness:
  "rws (example_artifact\<lparr>rws := []\<rparr>) = [] \<and>
   process_csv_file (\<lambda>s. s) (\<lambda>c. c) ''processed'' 1 (Inr (example_artifact\<lparr>rws := []\<rparr>))
     ''new'' ''L1.csv'' ''incremental_load'' example_store = (0, example_store)"
  using process_csv_file_zero_rows
    [of "Inr (example_artifact\<lparr>rws := []\<rparr>)" "example_artifact\<lparr>rws := []\<rparr>"
      "\<lambda>s. s" "\<lambda>c. c" "''processed''" 1 "''new''" "''L1.csv''" "''incremental_load''" example_store]
  by simp

section \<open>Properties of the merge engine\<close>

lemma cell_at_update: "cell_at (AList.update c v r) c' = (if c' = c then v else cell_at r c')"
  by (simp add: cell_at_def update_conv')

lemma column_set_col:
  "column (set_col df c v) c' = (if c' = c then replicate (shape0 df) v else column df c')"
  by (simp add: column_def set_col_def shape0_def cell_at_update map_replicate_const comp_def)

lemma shape0_set_col: "shape0 (set_col df c v) = shape0 df"
  by (simp add: set_col_def shape0_def)

text \<open>
  The handlers of the bulk pipeline's join stage. A join that raises \<^verbatim>\<open>ValueError\<close> at the
  unit, operation or phase level does not leave the join stage: the stage returns a frame
  whose columns of that level and of the deeper levels hold the empty string in every row,
  and whose other columns, those of the completed levels among them, are the ones of the
  frame joined so far. A join that raises any other exception leaves the stage with that
  exception, and the record is logged as failed with its message.
\<close>

theorem merge_structure_bulk_degrades:
  "(pd_merge l merged_df unit_df merge_keys = Inl (ValueError x) \<longrightarrow>
      (\<exists>r. merge_structure_bulk l merged_df unit_df operation_df phase_df = Inr r \<and>
           column r ''Unit'' = replicate (shape0 merged_df) (CStr '''') \<and>
           column r ''Operation'' = replicate (shape0 merged_df) (CStr '''') \<and>
           column r ''Phase'' = replicate (shape0 merged_df) (CStr '''') \<and>
           (\<forall>c. c \<noteq> ''Unit'' \<and> c \<noteq> ''Operation'' \<and> c \<noteq> ''Phase'' \<longrightarrow>
                column r c = column merged_df c))) \<and>
   (pd_merge l merged_df unit_df merge_keys = Inr joined_unit \<and>
    pd_merge l joined_unit operation_df (merge_keys @ [''operationId'']) = Inl (ValueError x) \<longrightarrow>
      (\<exists>r. merge_structure_bulk l merged_df unit_df operation_df phase_df = Inr r \<and>
           column r ''Unit'' = column joined_unit ''Unit'' \<and>
           column r ''Operation'' = replicate (shape0 joined_unit) (CStr '''') \<and>
           column r ''Phase'' = replicate (shape0 joined_unit) (CStr '''') \<and>
           (\<forall>c. c \<noteq> ''Operation'' \<and> c \<noteq> ''Phase'' \<longrightarrow> column r c = column joined_unit c))) \<and>
   (pd_merge l merged_df unit_df merge_keys = Inr joined_unit \<and>
    pd_merge l joined_unit operation_df (merge_keys @ [''operationId'']) = Inr joined_operation \<and>
    pd_merge l joined_operation phase_df (merge_keys @ [''operationId'', ''phaseId'']) =
      Inl (ValueError x) \<longrightarrow>
      (\<exists>r. merge_structure_bulk l merged_df unit_df operation_df phase_df = Inr r \<and>
           column r ''Unit'' = column joined_operation ''Unit'' \<and>
           column r ''Operation'' = column joined_operation ''Operation'' \<and>
           column r ''Phase'' = replicate (shape0 joined_operation) (CStr '''') \<and>
           (\<forall>c. c \<noteq> ''Phase'' \<longrightarrow> column r c = column joined_operation c))) \<and>
   ((\<forall>m. e \<noteq> ValueError m) \<and>
    (pd_merge l merged_df unit_df merge_keys = Inl e \<or>
     pd_merge l merged_df unit_df merge_keys = Inr joined_unit \<and>
     (pd_merge l joined_unit operation_df (merge_keys @ [''operationId'']) = Inl e \<or>
      pd_merge l joined_unit operation_df (merge_keys @ [''operationId'']) = Inr joined_operation \<and>
      pd_merge l joined_operation phase_df (merge_keys @ [''operationId'', ''phaseId'']) = Inl e)) \<longrightarrow>
      merge_structure_bulk l merged_df unit_df operation_df phase_df = Inl e \<and>
      (add_metadata record_df data_capture_df = Inr merged_df \<longrightarrow>
         write_artifact_bulk l output_data_dir s i lot_number record_df data_capture_df
           unit_df operation_df phase_df = log_exception s i e))"
proof (intro conjI impI)
  assume "pd_merge l merged_df unit_df merge_keys = Inl (ValueError x)"
  then show "\<exists>r. merge_structure_bulk l merged_df unit_df operation_df phase_df = Inr r \<and>
           column r ''Unit'' = replicate (shape0 merged_df) (CStr '''') \<and>
           column r ''Operation'' = replicate (shape0 merged_df) (CStr '''') \<and>
           column r ''Phase'' = replicate (shape0 merged_df) (CStr '''') \<and>
           (\<forall>c. c \<noteq> ''Unit'' \<and> c \<noteq> ''Operation'' \<and> c \<noteq> ''Phase'' \<longrightarrow>
                column r c = column merged_df c)"
    by (simp add: merge_structure_bulk_def column_set_col shape0_set_col)
next
  assume "pd_merge l merged_df unit_df merge_keys = Inr joined_unit \<and>
    pd_merge l joined_unit operation_df (merge_keys @ [''operationId'']) = Inl (ValueError x)"
  then show "\<exists>r. merge_structure_bulk l merged_df unit_df operation_df phase_df = Inr r \<and>
           column r ''Unit'' = column joined_unit ''Unit'' \<and>
           column r ''Operation'' = replicate (shape0 joined_unit) (CStr '''') \<and>
           column r ''Phase'' = replicate (shape0 joined_unit) (CStr '''') \<and>
           (\<forall>c. c \<noteq> ''Operation'' \<and> c \<noteq> ''Phase'' \<longrightarrow> column r c = column joined_unit c)"
    by (simp add: merge_structure_bulk_def column_set_col shape0_set_col)
next
  assume "pd_merge l merged_df unit_df merge_keys = Inr joined_unit \<and>
    pd_merge l joined_unit operation_df (merge_keys @ [''operationId'']) = Inr joined_operation \<and>
    pd_merge l joined_operation phase_df (merge_keys @ [''operationId'', ''phaseId'']) =
      Inl (ValueError x)"
  then show "\<exists>r. merge_structure_bulk l merged_df unit_df operation_df phase_df = Inr r \<and>
           column r ''Unit'' = column joined_operation ''Unit'' \<and>
           column r ''Operation'' = column joined_operation ''Operation'' \<and>
           column r ''Phase'' = replicate (shape0 joined_operation) (CStr '''') \<and>
           (\<forall>c. c \<noteq> ''Phase'' \<longrightarrow> column r c = column joined_operation c)"
    by (simp add: merge_structure_bulk_def column_set_col shape0_set_col)
next
  assume a: "(\<forall>m. e \<noteq> ValueError m) \<and>
    (pd_merge l merged_df unit_df merge_keys = Inl e \<or>
     pd_merge l merged_df unit_df merge_keys = Inr joined_unit \<and>
     (pd_merge l joined_unit operation_df (merge_keys @ [''operationId'']) = Inl e \<or>
      pd_merge l joined_unit operation_df (merge_keys @ [''operationId'']) = Inr joined_operation \<and>
      pd_merge l joined_operation phase_df (merge_keys @ [''operationId'', ''phaseId'']) = Inl e))"
  then show raised: "merge_structure_bulk l merged_df unit_df operation_df phase_df = Inl e"
    by (cases e) (auto simp: merge_structure_bulk_def)
  assume "add_metadata record_df data_capture_df = Inr merged_df"
  with raised show "write_artifact_bulk l output_data_dir s i lot_number record_df data_capture_df
           unit_df operation_df phase_df = log_exception s i e"
    by (simp add: write_artifact_bulk_def merge_data_bulk_def bind_exc_def)
qed


lemma example_join_unit:
  "pd_merge example_lib (example_keys (CInt 10) (CStr '''') (CInt 30)) example_unit_df merge_keys =
     Inr \<lparr>cols = [''masterTemplateId'', ''unitProcedureId'', ''operationId'', ''phaseId'', ''Unit''],
          rws = [[(''masterTemplateId'', CInt 3), (''unitProcedureId'', CInt 10),
                  (''operationId'', CStr ''''), (''phaseId'', CInt 30), (''Unit'', CStr ''Mixing'')]]\<rparr>"
  by code_simp

lemma example_join_operation:
  "pd_merge example_lib
     \<lparr>cols = [''masterTemplateId'', ''unitProcedureId'', ''operationId'', ''phaseId'', ''Unit''],
      rws = [[(''masterTemplateId'', CInt 3), (''unitProcedureId'', CInt 10),
              (''operationId'', CStr ''''), (''phaseId'', CInt 30), (''Unit'', CStr ''Mixing'')]]\<rparr>
     example_operation_df (merge_keys @ [''operationId'']) =
     Inl (ValueError ''You are trying to merge on object and int64 columns'')"
  by code_simp

theorem merge_structure_bulk_degrades_witness:
  "\<exists>r. merge_structure_bulk example_lib (example_keys (CInt 10) (CStr []) (CInt 30))
           example_unit_df example_operation_df example_phase_df = Inr r \<and>
        column r ''Unit'' = [CStr ''Mixing''] \<and>
        column r ''Operation'' = [CStr []] \<and>
        column r ''Phase'' = [CStr []]"
proof -
  define joined where
    "joined =
       \<lparr>cols = [''masterTemplateId'', ''unitProcedureId'', ''operationId'', ''phaseId'', ''Unit''],
        rws = [[(''masterTemplateId'', CInt 3), (''unitProcedureId'', CInt 10),
                (''operationId'', CStr []), (''phaseId'', CInt 30), (''Unit'', CStr ''Mixing'')]]\<rparr>"
  have unit: "pd_merge example_lib (example_keys (CInt 10) (CStr []) (CInt 30)) example_unit_df
      merge_keys = Inr joined"
    unfolding joined_def by (rule example_join_unit)
  have operation: "pd_merge example_lib joined example_operation_df (merge_keys @ [''operationId'']) =
      Inl (ValueError ''You are trying to merge on object and int64 columns'')"
    unfolding joined_def by (rule example_join_operation)
  have joined: "column joined ''Unit'' = [CStr ''Mixing'']" "shape0 joined = 1"
    by (simp_all add: joined_def column_def shape0_def cell_at_def)
  from merge_structure_bulk_degrades
    [where l = example_lib and merged_df = "example_keys (CInt 10) (CStr []) (CInt 30)"
       and unit_df = example_unit_df and operation_df = example_operation_df
       and phase_df = example_phase_df
       and x = "''You are trying to merge on object and int64 columns''"
       and joined_unit = joined,
     THEN conjunct2, THEN conjunct1, THEN mp, OF conjI, OF unit operation]
  obtain r where
    "merge_structure_bulk example_lib (example_keys (CInt 10) (CStr []) (CInt 30))
       example_unit_df example_operation_df example_phase_df = Inr r"
    "column r ''Unit'' = column joined ''Unit''"
    "column r ''Operation'' = replicate (shape0 joined) (CStr [])"
    "column r ''Phase'' = replicate (shape0 joined) (CStr [])"
    by blast
  with joined show ?thesis
    by simp
qed

text \<open>
  The joins of the incremental pipeline differ: a \<^verbatim>\<open>ValueError\<close> at the operation level
  blanks the unit column as well, although the unit join succeeded.
\<close>

lemma merge_structure_incr_blanks_unit:
  assumes "pd_merge l merged_df unit_df [''masterTemplateId'', ''unitProcedureId''] = Inr joined_unit"
      and "pd_merge l joined_unit op_df [''masterTemplateId'', ''unitProcedureId'', ''operationId''] =
             Inl (ValueError x)"
  shows "merge_structure_incr l merged_df unit_df op_df phase_df = Inr (blank_structure joined_unit)"
    and "column (blank_structure joined_unit) ''Unit'' = replicate (shape0 joined_unit) (CStr '''')"
  using assms
  by (simp_all add: merge_structure_incr_def blank_structure_def column_set_col shape0_set_col)

lemma example_incremental_joins:
  "merge_structure_incr example_lib (example_keys (CInt 10) (CStr '''') (CInt 30))
     example_unit_df example_operation_df example_phase_df =
   Inr \<lparr>cols = [''masterTemplateId'', ''unitProcedureId'', ''operationId'', ''phaseId'',
                ''Unit'', ''Operation'', ''Phase''],
        rws = [[(''masterTemplateId'', CInt 3), (''unitProcedureId'', CInt 10),
                (''operationId'', CStr ''''), (''phaseId'', CInt 30), (''Unit'', CStr ''''),
                (''Operation'', CStr ''''), (''Phase'', CStr '''')]]\<rparr>"
  by code_simp

lemma example_tables_without_phase:
  "fetch_production_structure_metadata
     (\<lambda>i. Inr (Some (filter (\<lambda>x. si_level x \<noteq> ''PHASE'') example_structure))) 7 =
   Inr (example_unit_df, example_operation_df, empty_frame)"
  by code_simp

lemma example_tables_unavailable:
  "fetch_production_structure_metadata (\<lambda>i. Inr None) 7 =
   Inr (empty_frame, empty_frame, empty_frame)"
  by (simp add: fetch_production_structure_metadata_def)

text \<open>
  Claim C4 says that a join step failing at the unit, operation or phase level aborts that
  level and the deeper ones only, never the whole record, and that the columns of the
  completed shallower levels keep their joined values. The code does neither.

  The structure resolver returns \<^verbatim>\<open>pd.DataFrame()\<close>, a frame without columns, for a level
  without rows, and three of them when the structure request failed. The join on such a
  table raises \<^verbatim>\<open>KeyError\<close>, which the \<^verbatim>\<open>except ValueError\<close> handlers of the join stage do
  not catch. At the example record 7, whose structure has a unit and an operation but no
  phase, the resolver returns the empty frame as the phase table, and both pipelines log
  the record as failed with the reason \<^verbatim>\<open>'masterTemplateId'\<close> and write no artifact; so
  does the bulk pipeline when the structure request failed.

  And when a join raises \<^verbatim>\<open>ValueError\<close> at the operation level (the capture row's
  operation identifier is a string, the table's an integer), after the unit join
  succeeded, the bulk pipeline keeps the unit name \<^verbatim>\<open>Mixing\<close>, while the incremental
  pipeline blanks it.
\<close>

theorem merge_engine_fails_record:
  "production_structure_metadata
     (example_source\<lparr>production_structure_metadata :=
        fetch_production_structure_metadata
          (\<lambda>i. Inr (Some (filter (\<lambda>x. si_level x \<noteq> ''PHASE'') example_structure)))\<rparr>) 7 =
     Inr (example_unit_df, example_operation_df, empty_frame) \<and>
   tracking_df (process_record_bulk example_lib
     (example_source\<lparr>production_structure_metadata :=
        fetch_production_structure_metadata
          (\<lambda>i. Inr (Some (filter (\<lambda>x. si_level x \<noteq> ''PHASE'') example_structure)))\<rparr>)
     ''out/'' initial_state 7) =
     [\<lparr>se_record_id = 7, se_lot_number = None, se_status = ''Fail'',
       se_reason = str_exc (KeyError ''masterTemplateId'')\<rparr>] \<and>
   output_files (process_record_bulk example_lib
     (example_source\<lparr>production_structure_metadata :=
        fetch_production_structure_metadata
          (\<lambda>i. Inr (Some (filter (\<lambda>x. si_level x \<noteq> ''PHASE'') example_structure)))\<rparr>)
     ''out/'' initial_state 7) = [] \<and>
   tracking_df (process_record_incr example_lib
     (example_source\<lparr>production_structure_metadata :=
        fetch_production_structure_metadata
          (\<lambda>i. Inr (Some (filter (\<lambda>x. si_level x \<noteq> ''PHASE'') example_structure)))\<rparr>)
     ''out/'' initial_state 7) =
     [\<lparr>se_record_id = 7, se_lot_number = None, se_status = ''Fail'',
       se_reason = str_exc (KeyError ''masterTemplateId'')\<rparr>] \<and>
   output_files (process_record_incr example_lib
     (example_source\<lparr>production_structure_metadata :=
        fetch_production_structure_metadata
          (\<lambda>i. Inr (Some (filter (\<lambda>x. si_level x \<noteq> ''PHASE'') example_structure)))\<rparr>)
     ''out/'' initial_state 7) = [] \<and>
   tracking_df (process_record_bulk example_lib
     (example_source\<lparr>production_structure_metadata :=
        fetch_production_structure_metadata (\<lambda>i. Inr None)\<rparr>)
     ''out/'' initial_state 7) =
     [\<lparr>se_record_id = 7, se_lot_number = None, se_status = ''Fail'',
       se_reason = str_exc (KeyError ''masterTemplateId'')\<rparr>] \<and>
   column (projr (merge_structure_bulk example_lib (example_keys (CInt 10) (CStr '''') (CInt 30))
             example_unit_df example_operation_df example_phase_df)) ''Unit'' = [CStr ''Mixing''] \<and>
   column (projr (merge_structure_incr example_lib (example_keys (CInt 10) (CStr '''') (CInt 30))
             example_unit_df example_operation_df example_phase_df)) ''Unit'' = [CStr '''']"
  by code_simp

section \<open>Properties of the record pipelines\<close>

lemma fetch_production_record_data_current:
  assumes "captures i = Inr all_data" and "list_ex ci_current all_data"
      and "fetch_production_record_data captures i = Inr (lot_number, record_df)"
  shows "record_df = \<lparr>cols = required_data_capture, rws = map capture_row (filter ci_current all_data)\<rparr>"
    and "rws record_df \<noteq> []" and "cols record_df \<noteq> []"
proof -
  from assms(2) have some: "filter ci_current all_data \<noteq> []" "all_data \<noteq> []"
    by (auto simp: list_ex_iff filter_empty_conv)
  from assms(1,3) some(2) show
    "record_df = \<lparr>cols = required_data_capture, rws = map capture_row (filter ci_current all_data)\<rparr>"
    by (auto simp: fetch_production_record_data_def Let_def split: list.splits)
  with some(1) show "rws record_df \<noteq> []" and "cols record_df \<noteq> []"
    by (simp_all add: required_data_capture_def)
qed

lemma fetch_production_record_data_stale:
  assumes "captures i = Inr all_data" and "\<not> list_ex ci_current all_data"
  shows "\<exists>df. fetch_production_record_data captures i = Inr (CInt 0, df) \<and> rws df = []"
  using assms
  by (cases "all_data = []")
     (auto simp: fetch_production_record_data_def Let_def empty_frame_def list_ex_iff
        filter_empty_conv split: list.splits)

text \<open>
  A record whose capture fetch returns no current row (no row at all, or superseded rows
  only) gives a frame without rows: both pipelines log it as failed with the reason
  \<^verbatim>\<open>fetch_production_record_data returned empty\<close>, and make no lot lookup.
\<close>

lemma stale_record_fails:
  assumes "data_captures src i = Inr all_data" and "\<not> list_ex ci_current all_data"
  shows "process_record_incr l src dir s i =
           s\<lparr>api_calls := api_calls s @ [FetchRecordData i],
             tracking_df := tracking_df s @
               [\<lparr>se_record_id = i, se_lot_number = None, se_status = ''Fail'',
                 se_reason = ''fetch_production_record_data returned empty''\<rparr>]\<rparr>"
    and "process_record_bulk l src dir s i =
           s\<lparr>api_calls := api_calls s @ [FetchRecordData i],
             tracking_df := tracking_df s @
               [\<lparr>se_record_id = i, se_lot_number = None, se_status = ''Fail'',
                 se_reason = ''fetch_production_record_data returned empty''\<rparr>]\<rparr>"
proof -
  obtain df where "fetch_production_record_data (data_captures src) i = Inr (CInt 0, df)"
      and "rws df = []"
    using fetch_production_record_data_stale [of "data_captures src" i all_data] assms by blast
  then show
    "process_record_incr l src dir s i =
           s\<lparr>api_calls := api_calls s @ [FetchRecordData i],
             tracking_df := tracking_df s @
               [\<lparr>se_record_id = i, se_lot_number = None, se_status = ''Fail'',
                 se_reason = ''fetch_production_record_data returned empty''\<rparr>]\<rparr>"
    and "process_record_bulk l src dir s i =
           s\<lparr>api_calls := api_calls s @ [FetchRecordData i],
             tracking_df := tracking_df s @
               [\<lparr>se_record_id = i, se_lot_number = None, se_status = ''Fail'',
                 se_reason = ''fetch_production_record_data returned empty''\<rparr>]\<rparr>"
    by (simp_all add: process_record_incr_def process_record_bulk_def Let_def df_empty_def
        shape0_def called_def log_failure_def log_status_def log_status_df_def)
qed

text \<open>
  Claim C3, as the code has it. The capture fetch of a record returned at least one
  current row, and the primary lookup returned a frame without rows. In the incremental
  pipeline the secondary lookup is then made: when it returns rows, the rest of the
  record's processing runs on the secondary lookup's frame as the lot summary; when it
  returns none, the record is logged as failed with the reason naming both calls, and
  the state changes in nothing else (no structure fetch, no artifact). In the bulk
  pipeline the structure tables are fetched between the two lookups: when that fetch
  returns, the same holds; when it raises, the secondary lookup is never made, and the
  record is logged as failed, without its lot number, with the message of the exception.
\<close>

theorem lot_summary_fallback:
  assumes "data_captures src i = Inr all_data" and "list_ex ci_current all_data"
      and "fetch_production_record_data (data_captures src) i = Inr (lot_number, record_df)"
      and "batch_records_by_lot src lot_number = Inr primary" and "rws primary = []"
  shows
   "(data_capture_by_lot src lot_number = Inr secondary \<and> rws secondary \<noteq> [] \<longrightarrow>
       (cols secondary \<noteq> [] \<longrightarrow>
          process_record_incr l src dir s i =
            write_artifact_incr l src dir
              (s\<lparr>api_calls := api_calls s @
                   [FetchRecordData i, FetchBatchRecords lot_number, FetchDataCapture lot_number]\<rparr>)
              i lot_number record_df secondary) \<and>
       (production_structure_metadata src i = Inr (unit_df, operation_df, phase_df) \<longrightarrow>
          process_record_bulk l src dir s i =
            write_artifact_bulk l dir
              (s\<lparr>api_calls := api_calls s @
                   [FetchRecordData i, FetchBatchRecords lot_number, FetchStructure i,
                    FetchDataCapture lot_number]\<rparr>)
              i lot_number record_df secondary unit_df operation_df phase_df)) \<and>
    (data_capture_by_lot src lot_number = Inr secondary \<and> rws secondary = [] \<longrightarrow>
       process_record_incr l src dir s i =
         s\<lparr>api_calls := api_calls s @
              [FetchRecordData i, FetchBatchRecords lot_number, FetchDataCapture lot_number],
           tracking_df := tracking_df s @
              [\<lparr>se_record_id = i, se_lot_number = Some lot_number, se_status = ''Fail'',
                se_reason = ''Both API calls returned empty''\<rparr>]\<rparr> \<and>
       (production_structure_metadata src i = Inr (unit_df, operation_df, phase_df) \<longrightarrow>
          process_record_bulk l src dir s i =
            s\<lparr>api_calls := api_calls s @
                 [FetchRecordData i, FetchBatchRecords lot_number, FetchStructure i,
                  FetchDataCapture lot_number],
              tracking_df := tracking_df s @
                 [\<lparr>se_record_id = i, se_lot_number = Some lot_number, se_status = ''Fail'',
                   se_reason = ''Both api_1 calls returned empty''\<rparr>]\<rparr>)) \<and>
    (production_structure_metadata src i = Inl e \<longrightarrow>
       process_record_bulk l src dir s i =
         s\<lparr>api_calls := api_calls s @
              [FetchRecordData i, FetchBatchRecords lot_number, FetchStructure i],
           tracking_df := tracking_df s @
              [\<lparr>se_record_id = i, se_lot_number = None, se_status = ''Fail'',
                se_reason = str_exc e\<rparr>]\<rparr>)"
proof -
  have filled: "rws record_df \<noteq> []" "cols record_df \<noteq> []"
    using fetch_production_record_data_current [of "data_captures src" i all_data lot_number record_df]
      assms(1,2,3) by simp_all
  with assms(3,4,5) show ?thesis
    by (simp add: process_record_incr_def process_record_bulk_def Let_def df_empty_def shape0_def
        called_def log_failure_def log_exception_def log_status_def log_status_df_def)
qed

text \<open>
  The three cases at the example record 7 of lot \<^verbatim>\<open>L1\<close>, whose primary lookup returns no
  rows: the secondary lookup returns the summary; it returns no rows; the structure fetch
  of the bulk pipeline raises.
\<close>

lemma example_record_data:
  "fetch_production_record_data (\<lambda>i. Inr [example_creation, example_weight]) 7 =
     Inr (CStr ''L1'',
          \<lparr>cols = required_data_capture, rws = [capture_row example_creation, capture_row example_weight]\<rparr>)"
  by (simp add: fetch_production_record_data_def example_creation_def example_weight_def)

lemma example_current: "list_ex ci_current [example_creation, example_weight]"
  by (simp add: example_creation_def)

theorem lot_summary_fallback_witness:
  "list_ex ci_current [example_creation, example_weight] \<and>
   process_record_incr example_lib
     (example_source\<lparr>batch_records_by_lot := \<lambda>lot. Inr empty_frame,
                      data_capture_by_lot := \<lambda>lot. Inr example_summary\<rparr>) ''out/'' initial_state 7 =
   write_artifact_incr example_lib
     (example_source\<lparr>batch_records_by_lot := \<lambda>lot. Inr empty_frame,
                      data_capture_by_lot := \<lambda>lot. Inr example_summary\<rparr>) ''out/''
     (initial_state\<lparr>api_calls :=
        [FetchRecordData 7, FetchBatchRecords (CStr ''L1''), FetchDataCapture (CStr ''L1'')]\<rparr>)
     7 (CStr ''L1'')
     \<lparr>cols = required_data_capture, rws = [capture_row example_creation, capture_row example_weight]\<rparr>
     example_summary \<and>
   process_record_bulk example_lib
     (example_source\<lparr>batch_records_by_lot := \<lambda>lot. Inr empty_frame,
                      data_capture_by_lot := \<lambda>lot. Inr example_summary\<rparr>) ''out/'' initial_state 7 =
   write_artifact_bulk example_lib ''out/''
     (initial_state\<lparr>api_calls :=
        [FetchRecordData 7, FetchBatchRecords (CStr ''L1''), FetchStructure 7,
         FetchDataCapture (CStr ''L1'')]\<rparr>)
     7 (CStr ''L1'')
     \<lparr>cols = required_data_capture, rws = [capture_row example_creation, capture_row example_weight]\<rparr>
     example_summary example_unit_df example_operation_df example_phase_df \<and>
   process_record_incr example_lib
     (example_source\<lparr>batch_records_by_lot := \<lambda>lot. Inr empty_frame\<rparr>) ''out/'' initial_state 7 =
   initial_state
     \<lparr>api_calls := [FetchRecordData 7, FetchBatchRecords (CStr ''L1''), FetchDataCapture (CStr ''L1'')],
      tracking_df := [\<lparr>se_record_id = 7, se_lot_number = Some (CStr ''L1''), se_status = ''Fail'',
                       se_reason = ''Both API calls returned empty''\<rparr>]\<rparr> \<and>
   process_record_bulk example_lib
     (example_source\<lparr>batch_records_by_lot := \<lambda>lot. Inr empty_frame\<rparr>) ''out/'' initial_state 7 =
   initial_state
     \<lparr>api_calls := [FetchRecordData 7, FetchBatchRecords (CStr ''L1''), FetchStructure 7,
                    FetchDataCapture (CStr ''L1'')],
      tracking_df := [\<lparr>se_record_id = 7, se_lot_number = Some (CStr ''L1''), se_status = ''Fail'',
                       se_reason = ''Both api_1 calls returned empty''\<rparr>]\<rparr> \<and>
   process_record_bulk example_lib
     (example_source\<lparr>batch_records_by_lot := \<lambda>lot. Inr empty_frame,
                      data_capture_by_lot := \<lambda>lot. Inr example_summary,
                      production_structure_metadata := \<lambda>i. Inl (OtherError ''timed out'')\<rparr>)
     ''out/'' initial_state 7 =
   initial_state
     \<lparr>api_calls := [FetchRecordData 7, FetchBatchRecords (CStr ''L1''), FetchStructure 7],
      tracking_df := [\<lparr>se_record_id = 7, se_lot_number = None, se_status = ''Fail'',
                       se_reason = ''timed out''\<rparr>]\<rparr>"
proof -
  have filled: "rws example_summary \<noteq> []" "cols example_summary \<noteq> []"
    by (simp_all add: example_summary_def)
  have second:
    "process_record_incr example_lib
       (example_source\<lparr>batch_records_by_lot := \<lambda>lot. Inr empty_frame,
                        data_capture_by_lot := \<lambda>lot. Inr example_summary\<rparr>) ''out/'' initial_state 7 =
     write_artifact_incr example_lib
       (example_source\<lparr>batch_records_by_lot := \<lambda>lot. Inr empty_frame,
                        data_capture_by_lot := \<lambda>lot. Inr example_summary\<rparr>) ''out/''
       (initial_state\<lparr>api_calls :=
          [FetchRecordData 7, FetchBatchRecords (CStr ''L1''), FetchDataCapture (CStr ''L1'')]\<rparr>)
       7 (CStr ''L1'')
       \<lparr>cols = required_data_capture, rws = [capture_row example_creation, capture_row example_weight]\<rparr>
       example_summary \<and>
     process_record_bulk example_lib
       (example_source\<lparr>batch_records_by_lot := \<lambda>lot. Inr empty_frame,
                        data_capture_by_lot := \<lambda>lot. Inr example_summary\<rparr>) ''out/'' initial_state 7 =
     write_artifact_bulk example_lib ''out/''
       (initial_state\<lparr>api_calls :=
          [FetchRecordData 7, FetchBatchRecords (CStr ''L1''), FetchStructure 7,
           FetchDataCapture (CStr ''L1'')]\<rparr>)
       7 (CStr ''L1'')
       \<lparr>cols = required_data_capture, rws = [capture_row example_creation, capture_row example_weight]\<rparr>
       example_summary example_unit_df example_operation_df example_phase_df"
    using lot_summary_fallback
      [of "example_source\<lparr>batch_records_by_lot := \<lambda>lot. Inr empty_frame,
                           data_capture_by_lot := \<lambda>lot. Inr example_summary\<rparr>"
        7 "[example_creation, example_weight]" "CStr ''L1''"
        "\<lparr>cols = required_data_capture,
          rws = [capture_row example_creation, capture_row example_weight]\<rparr>"
        empty_frame example_summary example_lib "''out/''" initial_state
        example_unit_df example_operation_df example_phase_df]
      filled example_current
    by (simp add: example_source_def example_record_data empty_frame_def initial_state_def)
  have none:
    "process_record_incr example_lib
       (example_source\<lparr>batch_records_by_lot := \<lambda>lot. Inr empty_frame\<rparr>) ''out/'' initial_state 7 =
     initial_state
       \<lparr>api_calls := [FetchRecordData 7, FetchBatchRecords (CStr ''L1''), FetchDataCapture (CStr ''L1'')],
        tracking_df := [\<lparr>se_record_id = 7, se_lot_number = Some (CStr ''L1''), se_status = ''Fail'',
                         se_reason = ''Both API calls returned empty''\<rparr>]\<rparr> \<and>
     process_record_bulk example_lib
       (example_source\<lparr>batch_records_by_lot := \<lambda>lot. Inr empty_frame\<rparr>) ''out/'' initial_state 7 =
     initial_state
       \<lparr>api_calls := [FetchRecordData 7, FetchBatchRecords (CStr ''L1''), FetchStructure 7,
                      FetchDataCapture (CStr ''L1'')],
        tracking_df := [\<lparr>se_record_id = 7, se_lot_number = Some (CStr ''L1''), se_status = ''Fail'',
                         se_reason = ''Both api_1 calls returned empty''\<rparr>]\<rparr>"
    using lot_summary_fallback
      [of "example_source\<lparr>batch_records_by_lot := \<lambda>lot. Inr empty_frame\<rparr>"
        7 "[example_creation, example_weight]" "CStr ''L1''"
        "\<lparr>cols = required_data_capture,
          rws = [capture_row example_creation, capture_row example_weight]\<rparr>"
        empty_frame empty_frame example_lib "''out/''" initial_state
        example_unit_df example_operation_df example_phase_df]
      example_current
    by (simp add: example_source_def example_record_data empty_frame_def initial_state_def)
  have raised:
    "process_record_bulk example_lib
       (example_source\<lparr>batch_records_by_lot := \<lambda>lot. Inr empty_frame,
                        data_capture_by_lot := \<lambda>lot. Inr example_summary,
                        production_structure_metadata := \<lambda>i. Inl (OtherError ''timed out'')\<rparr>)
       ''out/'' initial_state 7 =
     initial_state
       \<lparr>api_calls := [FetchRecordData 7, FetchBatchRecords (CStr ''L1''), FetchStructure 7],
        tracking_df := [\<lparr>se_record_id = 7, se_lot_number = None, se_status = ''Fail'',
                         se_reason = ''timed out''\<rparr>]\<rparr>"
    using lot_summary_fallback
      [of "example_source\<lparr>batch_records_by_lot := \<lambda>lot. Inr empty_frame,
                           data_capture_by_lot := \<lambda>lot. Inr example_summary,
                           production_structure_metadata := \<lambda>i. Inl (OtherError ''timed out'')\<rparr>"
        7 "[example_creation, example_weight]" "CStr ''L1''"
        "\<lparr>cols = required_data_capture,
          rws = [capture_row example_creation, capture_row example_weight]\<rparr>"
        empty_frame example_summary example_lib "''out/''" initial_state
        example_unit_df example_operation_df example_phase_df "OtherError ''timed out''"]
      example_current
    by (simp add: example_source_def example_record_data empty_frame_def initial_state_def)
  from second none raised example_current show ?thesis
    by simp
qed

text \<open>
  Two inputs at which the claim fails when read without these two restrictions. A record
  whose capture fetch returns one row, a superseded one: the primary lookup would return
  rows, but no lookup is made and the record is logged as failed in both pipelines. And,
  in the bulk pipeline,
  both lookups returning no rows and the structure fetch raising: the secondary lookup is
  never made, and the reason logged is the exception's message, not the one naming both
  calls.
\<close>

theorem lot_summary_fallback_counterexample:
  "data_captures (example_source\<lparr>data_captures := \<lambda>i. Inr [example_weight\<lparr>ci_current := False\<rparr>]\<rparr>) 7 =
     Inr [example_weight\<lparr>ci_current := False\<rparr>] \<and>
   batch_records_by_lot
     (example_source\<lparr>data_captures := \<lambda>i. Inr [example_weight\<lparr>ci_current := False\<rparr>]\<rparr>) (CInt 0) =
     Inr example_summary \<and>
   process_record_incr example_lib
     (example_source\<lparr>data_captures := \<lambda>i. Inr [example_weight\<lparr>ci_current := False\<rparr>]\<rparr>)
     ''out/'' initial_state 7 =
   initial_state
     \<lparr>api_calls := [FetchRecordData 7],
      tracking_df := [\<lparr>se_record_id = 7, se_lot_number = None, se_status = ''Fail'',
                       se_reason = ''fetch_production_record_data returned empty''\<rparr>]\<rparr> \<and>
   process_record_bulk example_lib
     (example_source\<lparr>data_captures := \<lambda>i. Inr [example_weight\<lparr>ci_current := False\<rparr>]\<rparr>)
     ''out/'' initial_state 7 =
   initial_state
     \<lparr>api_calls := [FetchRecordData 7],
      tracking_df := [\<lparr>se_record_id = 7, se_lot_number = None, se_status = ''Fail'',
                       se_reason = ''fetch_production_record_data returned empty''\<rparr>]\<rparr> \<and>
   batch_records_by_lot
     (example_source\<lparr>batch_records_by_lot := \<lambda>lot. Inr empty_frame,
        production_structure_metadata :=
          \<lambda>i. Inl (ValueError ''Expecting value: line 1 column 1 (char 0)'')\<rparr>) (CStr ''L1'') =
     Inr empty_frame \<and>
   data_capture_by_lot
     (example_source\<lparr>batch_records_by_lot := \<lambda>lot. Inr empty_frame,
        production_structure_metadata :=
          \<lambda>i. Inl (ValueError ''Expecting value: line 1 column 1 (char 0)'')\<rparr>) (CStr ''L1'') =
     Inr empty_frame \<and>
   process_record_bulk example_lib
     (example_source\<lparr>batch_records_by_lot := \<lambda>lot. Inr empty_frame,
        production_structure_metadata :=
          \<lambda>i. Inl (ValueError ''Expecting value: line 1 column 1 (char 0)'')\<rparr>)
     ''out/'' initial_state 7 =
   initial_state
     \<lparr>api_calls := [FetchRecordData 7, FetchBatchRecords (CStr ''L1''), FetchStructure 7],
      tracking_df := [\<lparr>se_record_id = 7, se_lot_number = None, se_status = ''Fail'',
                       se_reason = ''Expecting value: line 1 column 1 (char 0)''\<rparr>]\<rparr>"
  by (simp add: process_record_bulk_def process_record_incr_def example_source_def
      fetch_production_record_data_def example_weight_def example_creation_def
      Let_def shape0_def df_empty_def
      empty_frame_def called_def log_exception_def log_failure_def log_status_def log_status_df_def
      initial_state_def)

lemma str_int_0: "str_int 0 = ''0''"
  by (simp add: str_int_def str_nat_digit digit_char_def)

lemma reconciler_zero:
  assumes "captures i = Inr all_data"
      and "list_ex ci_current all_data"
      and "\<not> list_ex (\<lambda>x. ci_current x \<and> ci_dataCaptureName x = ''BATCH_RECORD_CREATION'') all_data"
  shows "fetch_production_record_data captures i =
     Inr (CInt 0, \<lparr>cols = required_data_capture, rws = map capture_row (filter ci_current all_data)\<rparr>)"
proof -
  from assms(2) have "all_data \<noteq> []"
    by auto
  moreover from assms(3)
  have "filter (\<lambda>x. ci_dataCaptureName x = ''BATCH_RECORD_CREATION'') (filter ci_current all_data) = []"
    by (auto simp: list_ex_iff filter_empty_conv)
  ultimately show ?thesis
    using assms(1) by (simp add: fetch_production_record_data_def)
qed

text \<open>
  Claim C9, as the code has it. The capture fetch of a record returned at least one
  current row and no current row named \<^verbatim>\<open>BATCH_RECORD_CREATION\<close>. Then the reconciler
  returns the integer 0 with a frame that has rows; both pipelines query the primary
  lookup with 0, and every later call is the structure fetch or the secondary lookup
  with 0; the secondary lookup is made exactly when the primary lookup returns an empty
  frame (in the bulk pipeline: and the structure fetch in between returns); the record
  gets one ledger row, and when that row is a Success its lot number is 0 and the
  artifact written is \<^verbatim>\<open>0.csv\<close> in the output directory.
\<close>

theorem lot_number_zero:
  assumes "data_captures src i = Inr all_data"
      and "list_ex ci_current all_data"
      and "\<not> list_ex (\<lambda>x. ci_current x \<and> ci_dataCaptureName x = ''BATCH_RECORD_CREATION'') all_data"
  shows
   "(\<exists>record_df. fetch_production_record_data (data_captures src) i = Inr (CInt 0, record_df) \<and>
        rws record_df \<noteq> []) \<and>
    (\<exists>rest e.
        api_calls (process_record_bulk l src dir s i) =
          api_calls s @ [FetchRecordData i, FetchBatchRecords (CInt 0)] @ rest \<and>
        list_all (\<lambda>c. c = FetchStructure i \<or> c = FetchDataCapture (CInt 0)) rest \<and>
        (FetchDataCapture (CInt 0) \<in> set rest \<longleftrightarrow>
           (\<exists>primary tables. batch_records_by_lot src (CInt 0) = Inr primary \<and> rws primary = [] \<and>
              production_structure_metadata src i = Inr tables)) \<and>
        tracking_df (process_record_bulk l src dir s i) = tracking_df s @ [e] \<and>
        (se_status e = ''Success'' \<longrightarrow>
           se_lot_number e = Some (CInt 0) \<and>
           (\<exists>merged_df. output_files (process_record_bulk l src dir s i) =
              AList.update (dir @ ''0.csv'') merged_df (output_files s)))) \<and>
    (\<exists>rest e.
        api_calls (process_record_incr l src dir s i) =
          api_calls s @ [FetchRecordData i, FetchBatchRecords (CInt 0)] @ rest \<and>
        list_all (\<lambda>c. c = FetchStructure i \<or> c = FetchDataCapture (CInt 0)) rest \<and>
        (FetchDataCapture (CInt 0) \<in> set rest \<longleftrightarrow>
           (\<exists>primary. batch_records_by_lot src (CInt 0) = Inr primary \<and> df_empty primary)) \<and>
        tracking_df (process_record_incr l src dir s i) = tracking_df s @ [e] \<and>
        (se_status e = ''Success'' \<longrightarrow>
           se_lot_number e = Some (CInt 0) \<and>
           (\<exists>merged_df. output_files (process_record_incr l src dir s i) =
              AList.update (os_path_join dir ''0.csv'') merged_df (output_files s))))"
proof -
  define record_df where
    "record_df = \<lparr>cols = required_data_capture, rws = map capture_row (filter ci_current all_data)\<rparr>"
  have fetched: "fetch_production_record_data (data_captures src) i = Inr (CInt 0, record_df)"
    unfolding record_df_def using assms by (rule reconciler_zero)
  have rows: "rws record_df \<noteq> []"
    using assms(2) by (auto simp: record_df_def list_ex_iff filter_empty_conv)
  have cols: "cols record_df \<noteq> []"
    by (simp add: record_df_def required_data_capture_def)
  have first: "\<exists>record_df. fetch_production_record_data (data_captures src) i = Inr (CInt 0, record_df) \<and>
        rws record_df \<noteq> []"
    using fetched rows by blast
  have bulk: "\<exists>rest e.
        api_calls (process_record_bulk l src dir s i) =
          api_calls s @ [FetchRecordData i, FetchBatchRecords (CInt 0)] @ rest \<and>
        list_all (\<lambda>c. c = FetchStructure i \<or> c = FetchDataCapture (CInt 0)) rest \<and>
        (FetchDataCapture (CInt 0) \<in> set rest \<longleftrightarrow>
           (\<exists>primary tables. batch_records_by_lot src (CInt 0) = Inr primary \<and> rws primary = [] \<and>
              production_structure_metadata src i = Inr tables)) \<and>
        tracking_df (process_record_bulk l src dir s i) = tracking_df s @ [e] \<and>
        (se_status e = ''Success'' \<longrightarrow>
           se_lot_number e = Some (CInt 0) \<and>
           (\<exists>merged_df. output_files (process_record_bulk l src dir s i) =
              AList.update (dir @ ''0.csv'') merged_df (output_files s)))"
    using rows
    by (auto simp: process_record_bulk_def fetched Let_def shape0_def called_def log_exception_def
        log_status_def log_status_df_def write_artifact_bulk_def to_csv_def str_int_0
        split: sum.splits prod.splits)
  have incr: "\<exists>rest e.
        api_calls (process_record_incr l src dir s i) =
          api_calls s @ [FetchRecordData i, FetchBatchRecords (CInt 0)] @ rest \<and>
        list_all (\<lambda>c. c = FetchStructure i \<or> c = FetchDataCapture (CInt 0)) rest \<and>
        (FetchDataCapture (CInt 0) \<in> set rest \<longleftrightarrow>
           (\<exists>primary. batch_records_by_lot src (CInt 0) = Inr primary \<and> df_empty primary)) \<and>
        tracking_df (process_record_incr l src dir s i) = tracking_df s @ [e] \<and>
        (se_status e = ''Success'' \<longrightarrow>
           se_lot_number e = Some (CInt 0) \<and>
           (\<exists>merged_df. output_files (process_record_incr l src dir s i) =
              AList.update (os_path_join dir ''0.csv'') merged_df (output_files s)))"
    using rows cols
    by (auto simp: process_record_incr_def fetched Let_def df_empty_def called_def log_exception_def
        log_failure_def log_status_def log_status_df_def write_artifact_incr_def to_csv_def str_int_0
        split: sum.splits prod.splits)
  from first bulk incr show ?thesis
    by blast
qed

lemma api_calls_write_artifact_bulk:
  "api_calls (write_artifact_bulk l dir s i lot_number record_df capture_df u o' p) = api_calls s"
  by (simp add: write_artifact_bulk_def log_exception_def log_status_def to_csv_def split: sum.splits)

lemma api_calls_write_artifact_incr:
  "api_calls (write_artifact_incr l src dir s i lot_number record_df capture_df) =
     api_calls s @ [FetchStructure i]"
  by (simp add: write_artifact_incr_def log_exception_def log_status_def to_csv_def called_def
      Let_def split: sum.splits prod.splits)

lemma example_unnamed_record:
  "fetch_production_record_data (\<lambda>i. Inr [example_weight]) 7 =
     Inr (CInt 0, \<lparr>cols = required_data_capture, rws = [capture_row example_weight]\<rparr>)"
  by (simp add: fetch_production_record_data_def example_weight_def)

text \<open>
  When the primary lookup returns rows for lot number 0, the secondary lookup is not
  queried at all.
\<close>

theorem lot_number_zero_counterexample:
  "fetch_production_record_data
     (data_captures (example_source\<lparr>data_captures := \<lambda>i. Inr [example_weight]\<rparr>)) 7 =
     Inr (CInt 0, \<lparr>cols = required_data_capture, rws = [capture_row example_weight]\<rparr>) \<and>
   api_calls (process_record_bulk example_lib
      (example_source\<lparr>data_captures := \<lambda>i. Inr [example_weight]\<rparr>) ''out/'' initial_state 7) =
     [FetchRecordData 7, FetchBatchRecords (CInt 0), FetchStructure 7] \<and>
   api_calls (process_record_incr example_lib
      (example_source\<lparr>data_captures := \<lambda>i. Inr [example_weight]\<rparr>) ''out/'' initial_state 7) =
     [FetchRecordData 7, FetchBatchRecords (CInt 0), FetchStructure 7]"
  by (simp add: process_record_bulk_def process_record_incr_def example_source_def
      example_unnamed_record Let_def shape0_def df_empty_def example_summary_def
      api_calls_write_artifact_bulk api_calls_write_artifact_incr called_def initial_state_def
      required_data_capture_def)

theorem lot_number_zero_witness:
  "(\<exists>record_df.
      fetch_production_record_data
        (data_captures (example_source\<lparr>data_captures := \<lambda>i. Inr [example_weight],
                          batch_records_by_lot := \<lambda>lot. Inr empty_frame,
                          data_capture_by_lot := \<lambda>lot. Inr example_summary\<rparr>)) 7 =
        Inr (CInt 0, record_df) \<and> rws record_df \<noteq> []) \<and>
   (\<exists>rest. api_calls (process_record_bulk example_lib
               (example_source\<lparr>data_captures := \<lambda>i. Inr [example_weight],
                  batch_records_by_lot := \<lambda>lot. Inr empty_frame,
                  data_capture_by_lot := \<lambda>lot. Inr example_summary\<rparr>) ''out/'' initial_state 7) =
            [FetchRecordData 7, FetchBatchRecords (CInt 0)] @ rest \<and>
          FetchDataCapture (CInt 0) \<in> set rest) \<and>
   (\<exists>rest. api_calls (process_record_incr example_lib
               (example_source\<lparr>data_captures := \<lambda>i. Inr [example_weight],
                  batch_records_by_lot := \<lambda>lot. Inr empty_frame,
                  data_capture_by_lot := \<lambda>lot. Inr example_summary\<rparr>) ''out/'' initial_state 7) =
            [FetchRecordData 7, FetchBatchRecords (CInt 0)] @ rest \<and>
          FetchDataCapture (CInt 0) \<in> set rest)"
proof -
  define src where
    "src = example_source\<lparr>data_captures := \<lambda>i. Inr [example_weight],
                  batch_records_by_lot := \<lambda>lot. Inr empty_frame,
                  data_capture_by_lot := \<lambda>lot. Inr example_summary\<rparr>"
  have captures: "data_captures src 7 = Inr [example_weight]"
    by (simp add: src_def)
  have current: "list_ex ci_current [example_weight]"
    by (simp add: example_weight_def)
  have unnamed: "\<not> list_ex (\<lambda>x. ci_current x \<and> ci_dataCaptureName x = ''BATCH_RECORD_CREATION'')
      [example_weight]"
    by (simp add: example_weight_def)
  have primary: "\<exists>primary tables. batch_records_by_lot src (CInt 0) = Inr primary \<and> rws primary = [] \<and>
      production_structure_metadata src 7 = Inr tables"
    by (simp add: src_def example_source_def empty_frame_def)
  have primary': "\<exists>primary. batch_records_by_lot src (CInt 0) = Inr primary \<and> df_empty primary"
    by (simp add: src_def example_source_def empty_frame_def df_empty_def)
  have start: "api_calls initial_state = []"
    by (simp add: initial_state_def)
  note zero = lot_number_zero [OF captures current unnamed, of example_lib "''out/''" initial_state]
  have reconciled: "\<exists>record_df. fetch_production_record_data (data_captures src) 7 =
      Inr (CInt 0, record_df) \<and> rws record_df \<noteq> []"
    by (rule zero [THEN conjunct1])
  from zero [THEN conjunct2, THEN conjunct1] obtain rest where
    "api_calls (process_record_bulk example_lib src ''out/'' initial_state 7) =
       api_calls initial_state @ [FetchRecordData 7, FetchBatchRecords (CInt 0)] @ rest"
    "(FetchDataCapture (CInt 0) \<in> set rest) =
       (\<exists>primary tables. batch_records_by_lot src (CInt 0) = Inr primary \<and> rws primary = [] \<and>
          production_structure_metadata src 7 = Inr tables)"
    by blast
  with primary start
  have bulk: "\<exists>rest. api_calls (process_record_bulk example_lib src ''out/'' initial_state 7) =
      [FetchRecordData 7, FetchBatchRecords (CInt 0)] @ rest \<and> FetchDataCapture (CInt 0) \<in> set rest"
    by simp
  from zero [THEN conjunct2, THEN conjunct2] obtain rest' where
    "api_calls (process_record_incr example_lib src ''out/'' initial_state 7) =
       api_calls initial_state @ [FetchRecordData 7, FetchBatchRecords (CInt 0)] @ rest'"
    "(FetchDataCapture (CInt 0) \<in> set rest') =
       (\<exists>primary. batch_records_by_lot src (CInt 0) = Inr primary \<and> df_empty primary)"
    by blast
  with primary' start
  have incr: "\<exists>rest. api_calls (process_record_incr example_lib src ''out/'' initial_state 7) =
      [FetchRecordData 7, FetchBatchRecords (CInt 0)] @ rest \<and> FetchDataCapture (CInt 0) \<in> set rest"
    by simp
  from reconciled bulk incr show ?thesis
    unfolding src_def by blast
qed

section \<open>Properties of the runs\<close>



text \<open>Processing a record opens with its capture fetch and saves no checkpoint.\<close>

lemma process_record_bulk_progress:
  "\<exists>rest. api_calls (process_record_bulk l src dir s i) = api_calls s @ FetchRecordData i # rest \<and>
      filter is_progress rest = []"
  by (auto simp: process_record_bulk_def Let_def called_def log_exception_def log_status_def
      write_artifact_bulk_def to_csv_def split: sum.splits prod.splits)
















lemma main_bulk_resumes:
  assumes "arg_start args = None" and "- 1 \<le> load_checkpoint s"
  shows "main_bulk l src dir default_end_id args s =
     run_bulk l src dir s (load_checkpoint s + 1)
       (case arg_end args of Some b \<Rightarrow> b | None \<Rightarrow> default_end_id) (arg_batch_size args)"
proof (cases "load_checkpoint s + 1 \<le> 0")
  case True
  with assms(2) have "load_checkpoint s + 1 = 0"
    by simp
  with assms(1) show ?thesis
    by (simp add: main_bulk_def Let_def)
next
  case False
  with assms(1) show ?thesis
    by (simp add: main_bulk_def Let_def)
qed

text \<open>
  Claim C1. A run was interrupted in its second batch: the checkpoint file holds 99 and
  the ledger holds a Success row for identifier 100. Restarted without \<^verbatim>\<open>--start\<close>
  (here with \<^verbatim>\<open>--end 100\<close>), the run starts at 100, as claimed, and its first call
  fetches the captures of identifier 100 again, whatever the source and the library are:
  \<^verbatim>\<open>process_record\<close> never asks the ledger.
\<close>

theorem resume_fetches_success_again:
  "is_already_processed
     [\<lparr>se_record_id = 100, se_lot_number = Some (CStr ''L1''), se_status = ''Success'',
       se_reason = ''''\<rparr>] 100 \<and>
   (\<exists>s' rest.
      main_bulk l src dir default_end_id
        \<lparr>arg_start = None, arg_end = Some 100, arg_batch_size = 100\<rparr>
        \<lparr>tracking_df =
           [\<lparr>se_record_id = 100, se_lot_number = Some (CStr ''L1''), se_status = ''Success'',
             se_reason = ''''\<rparr>],
         checkpoint_file = Some 99, checkpoints_saved = [99], output_files = [],
         api_calls = []\<rparr> = Some s' \<and>
      api_calls s' = FetchRecordData 100 # rest)"
proof -
  define s where
    "s = \<lparr>tracking_df =
           [\<lparr>se_record_id = 100, se_lot_number = Some (CStr ''L1''), se_status = ''Success'',
             se_reason = ''''\<rparr>],
         checkpoint_file = Some 99, checkpoints_saved = [99], output_files = [],
         api_calls = []\<rparr>"
  obtain rest where rest:
    "api_calls (process_record_bulk l src dir s 100) = api_calls s @ FetchRecordData 100 # rest"
    using process_record_bulk_progress by blast
  have "run_batches (process_record_bulk l src dir) s 100 100 100 =
      run_batches (process_record_bulk l src dir)
        (save_checkpoint (process_record_bulk l src dir s 100) 100) 101 100 100"
    by (subst run_batches.simps) (simp add: Let_def)
  also have "\<dots> = Some (save_checkpoint (process_record_bulk l src dir s 100) 100)"
    by (subst run_batches.simps) simp
  finally have "main_bulk l src dir default_end_id
        \<lparr>arg_start = None, arg_end = Some 100, arg_batch_size = 100\<rparr> s =
      Some (save_checkpoint (process_record_bulk l src dir s 100) 100)"
    by (simp add: main_bulk_def run_bulk_def load_checkpoint_def s_def)
  moreover have "api_calls (save_checkpoint (process_record_bulk l src dir s 100) 100) =
      FetchRecordData 100 # (rest @ [SaveCheckpoint 100])"
    using rest by (simp add: save_checkpoint_def s_def)
  ultimately show ?thesis
    unfolding s_def by (auto simp: is_already_processed_def)
qed

end
